theory Spec2Isabelle
  imports Main "HOL-Library.Sublist" "HOL-Library.AList"
begin

section \<open>Data model\<close>

text \<open>
  The weekly leaderboard of the bot: \<^verbatim>\<open>weeklyAwards/db.js\<close> (the SQLite store) and
  \<^verbatim>\<open>weeklyAwards/weeklyAward.js\<close> (reaction handlers, the tick loop, start and stop).

  Instants are integers: milliseconds since the Unix epoch, UTC. Reaction counts are
  integers (JavaScript numbers that hold small sums of integers).
\<close>

type_synonym time = int

text \<open>Exceptions of the JavaScript code, by the class the \<^verbatim>\<open>catch\<close> blocks test for.\<close>

datatype js_error = TypeError string | SqliteError string | OtherError string

text \<open>\<^verbatim>\<open>String.prototype.includes\<close>: the needle occurs somewhere in the text.\<close>

fun str_includes :: "string \<Rightarrow> string \<Rightarrow> bool" where
  "str_includes [] needle = (needle = [])"
| "str_includes (c # cs) needle = (prefix needle (c # cs) \<or> str_includes cs needle)"

text \<open>
  The test of every \<^verbatim>\<open>catch\<close> block of db.js:
  \<^verbatim>\<open>e instanceof TypeError && e.message.includes('database connection is busy')\<close>.
\<close>

definition is_busy :: "js_error \<Rightarrow> bool" where
  "is_busy e =
     (case e of
        TypeError msg \<Rightarrow> str_includes msg ''database connection is busy''
      | SqliteError msg \<Rightarrow> False
      | OtherError msg \<Rightarrow> False)"

text \<open>
  A row of the table \<^verbatim>\<open>reacted_messages\<close>, with the column names of the
  \<^verbatim>\<open>create table\<close> statement. The record the JavaScript methods return
  (\<^verbatim>\<open>guildId\<close>, \<^verbatim>\<open>reactionsCount\<close>, ...) is this row with its columns
  renamed, so the model uses the row for both.
\<close>

record row =
  guild_id :: string
  channel_id :: string
  message_id :: string
  guild_name :: string
  channel_name :: string
  content :: string
  author :: string
  url :: string
  reactions_count :: int
  timestamp :: time
  created_at :: time
  updated_at :: time

text \<open>A row of the table \<^verbatim>\<open>post_target\<close> (class WeeklyAwardConfig).\<close>

record config_row =
  cfg_guild_id :: string
  cfg_guild_name :: string
  cfg_channel_id :: string
  cfg_channel_name :: string
  cfg_created_at :: time
  cfg_updated_at :: time

text \<open>A row of the table \<^verbatim>\<open>times\<close> (class WeeklyAwardTime).\<close>

record time_row =
  tm_guild_id :: string
  tm_weekday :: int
  tm_hour :: int
  tm_minute :: int
  tm_created_at :: time
  tm_updated_at :: time

text \<open>
  A discord.js message, as far as the code reads it. \<^verbatim>\<open>m_guild_name\<close> is
  \<^verbatim>\<open>message.guild?.name\<close>, \<^verbatim>\<open>m_channel_name\<close> is the channel's name when the
  channel has one, \<^verbatim>\<open>m_author_username\<close> is \<^verbatim>\<open>message.author?.username\<close>,
  \<^verbatim>\<open>m_reactions\<close> holds the \<^verbatim>\<open>count\<close> of every entry of
  \<^verbatim>\<open>message.reactions.cache\<close>.
\<close>

record message =
  m_id :: string
  m_guildId :: string
  m_channelId :: string
  m_guild_name :: "string option"
  m_channel_name :: "string option"
  m_content :: string
  m_author_username :: "string option"
  m_author_bot :: bool
  m_url :: string
  m_createdTimestamp :: time
  m_inGuild :: bool
  m_reactions :: "int list"

datatype channel_type = GuildText | GuildVoice | OtherChannel

record channel =
  ch_name :: string
  ch_type :: channel_type

record guild =
  g_name :: string
  g_channels :: "channel list"

text \<open>
  What the code takes from outside itself.
  \<^item> \<^verbatim>\<open>fault k\<close>: the exception that the \<open>k\<close>-th execution of a statement inside a
    \<^verbatim>\<open>try\<close> block of db.js raises, if any. Preparing a statement and the reading
    methods (\<^verbatim>\<open>get\<close>, \<^verbatim>\<open>all\<close>, \<^verbatim>\<open>iterate\<close>), which stand outside every
    \<^verbatim>\<open>try\<close>, are taken not to fail.
  \<^item> \<^verbatim>\<open>clock k\<close>: SQLite's \<^verbatim>\<open>'now'\<close> at that execution.
  \<^item> \<^verbatim>\<open>isUrl\<close>: the helper of \<^verbatim>\<open>lib/util\<close>, whose source is not part of the
    files at hand.
  \<^item> \<^verbatim>\<open>fromNumber\<close>: the helper of \<^verbatim>\<open>./weekday\<close>, likewise.
  \<^item> \<^verbatim>\<open>guilds\<close>: what \<^verbatim>\<open>client.guilds.fetch()\<close> and the channel caches hold.
  \<^item> \<^verbatim>\<open>fetchMessageByIds\<close>, \<^verbatim>\<open>messageToEmbeds\<close>: the two helpers of
    \<^verbatim>\<open>features/util.js\<close>, which talk to the chat platform.
\<close>

record 'e world =
  fault :: "nat \<Rightarrow> js_error option"
  clock :: "nat \<Rightarrow> time"
  isUrl :: "string \<Rightarrow> bool"
  fromNumber :: "int \<Rightarrow> int"
  guilds :: "guild list"
  fetchMessageByIds :: "string \<Rightarrow> string \<Rightarrow> string \<Rightarrow> message option"
  messageToEmbeds :: "message \<Rightarrow> bool \<Rightarrow> 'e list"

text \<open>
  The database file. \<^verbatim>\<open>executed\<close> counts the statement executions made inside
  \<^verbatim>\<open>try\<close> blocks so far (the index into \<^verbatim>\<open>fault\<close> and \<^verbatim>\<open>clock\<close>);
  \<^verbatim>\<open>yields\<close> counts the \<^verbatim>\<open>await setTimeout()\<close> calls of the \<^verbatim>\<open>catch\<close>
  blocks; \<^verbatim>\<open>vacuums\<close> counts the calls of \<^verbatim>\<open>vacuum()\<close>. A table is the list of
  its rows in insertion order (\<^verbatim>\<open>times_rows\<close> is the table \<^verbatim>\<open>times\<close>).
\<close>

record store =
  reacted_messages :: "row list"
  post_target :: "config_row list"
  times_rows :: "time_row list"
  executed :: nat
  yields :: nat
  vacuums :: nat

section \<open>The store (db.js)\<close>

text \<open>SQLite's \<^verbatim>\<open>datetime('now')\<close> has a resolution of one second.\<close>

definition datetime_now :: "time \<Rightarrow> time" where
  "datetime_now t = t - t mod 1000"

text \<open>The primary key of \<^verbatim>\<open>reacted_messages\<close>.\<close>

definition same_key :: "string \<Rightarrow> string \<Rightarrow> string \<Rightarrow> row \<Rightarrow> bool" where
  "same_key g c m r = (guild_id r = g \<and> channel_id r = c \<and> message_id r = m)"

definition row_key :: "row \<Rightarrow> string \<times> string \<times> string" where
  "row_key r = (guild_id r, channel_id r, message_id r)"

text \<open>
  \<^verbatim>\<open>WeeklyAward.#isRow\<close>. Every column is declared \<^verbatim>\<open>not null\<close> and is written
  by \<^verbatim>\<open>set\<close> with a value of the type the check asks for, so in the typed model only
  the test \<^verbatim>\<open>isUrl(row.url)\<close> can fail.
\<close>

definition isRow :: "'e world \<Rightarrow> row \<Rightarrow> bool" where
  "isRow w r = isUrl w (url r)"

definition db_get :: "'e world \<Rightarrow> string \<Rightarrow> string \<Rightarrow> string \<Rightarrow> store \<Rightarrow> row option" where
  "db_get w guildId channelId messageId s =
     (case find (same_key guildId channelId messageId) (reacted_messages s) of
        None \<Rightarrow> None
      | Some r \<Rightarrow> if isRow w r then Some r else None)"

definition db_all :: "'e world \<Rightarrow> store \<Rightarrow> row list" where
  "db_all w s = filter (isRow w) (reacted_messages s)"

definition db_iterate :: "'e world \<Rightarrow> store \<Rightarrow> row list" where
  "db_iterate w s = filter (isRow w) (reacted_messages s)"

text \<open>
  The statement of \<^verbatim>\<open>set\<close>: \<^verbatim>\<open>insert ... on conflict (guild_id, channel_id,
  message_id) do update set guild_name, channel_name, content, author, reactions_count,
  updated_at\<close>. The conflict branch leaves \<^verbatim>\<open>url\<close>, \<^verbatim>\<open>timestamp\<close> and
  \<^verbatim>\<open>created_at\<close> as they are.
\<close>

definition new_row :: "time \<Rightarrow> message \<Rightarrow> int \<Rightarrow> row" where
  "new_row now msg reactionsCount =
     \<lparr> guild_id = m_guildId msg,
       channel_id = m_channelId msg,
       message_id = m_id msg,
       guild_name = (case m_guild_name msg of None \<Rightarrow> [] | Some n \<Rightarrow> n),
       channel_name = (case m_channel_name msg of None \<Rightarrow> [] | Some n \<Rightarrow> n),
       content = m_content msg,
       author = (case m_author_username msg of None \<Rightarrow> [] | Some n \<Rightarrow> n),
       url = m_url msg,
       reactions_count = reactionsCount,
       timestamp = m_createdTimestamp msg,
       created_at = datetime_now now,
       updated_at = datetime_now now \<rparr>"

definition update_row :: "time \<Rightarrow> message \<Rightarrow> int \<Rightarrow> row \<Rightarrow> row" where
  "update_row now msg reactionsCount r =
     r \<lparr> guild_name := (case m_guild_name msg of None \<Rightarrow> [] | Some n \<Rightarrow> n),
         channel_name := (case m_channel_name msg of None \<Rightarrow> [] | Some n \<Rightarrow> n),
         content := m_content msg,
         author := (case m_author_username msg of None \<Rightarrow> [] | Some n \<Rightarrow> n),
         reactions_count := reactionsCount,
         updated_at := datetime_now now \<rparr>"

definition upsert_sql :: "time \<Rightarrow> message \<Rightarrow> int \<Rightarrow> row list \<Rightarrow> row list" where
  "upsert_sql now msg reactionsCount rows =
     (if list_ex (same_key (m_guildId msg) (m_channelId msg) (m_id msg)) rows
      then map (\<lambda>r. if same_key (m_guildId msg) (m_channelId msg) (m_id msg) r
                     then update_row now msg reactionsCount r else r) rows
      else rows @ [new_row now msg reactionsCount])"

text \<open>
  \<^verbatim>\<open>async set(message, reactionsCount)\<close>: run the statement; on the busy error
  \<^verbatim>\<open>await setTimeout()\<close> and call \<^verbatim>\<open>this.set\<close> again; rethrow anything else.
  The result is \<open>None\<close> when the call never returns.
\<close>

partial_function (option) db_set ::
  "'e world \<Rightarrow> message \<Rightarrow> int \<Rightarrow> store \<Rightarrow> (js_error + store) option" where
  "db_set w msg reactionsCount s =
     (case fault w (executed s) of
        None \<Rightarrow>
          Some (Inr (s \<lparr> reacted_messages :=
                           upsert_sql (clock w (executed s)) msg reactionsCount (reacted_messages s),
                         executed := Suc (executed s) \<rparr>))
      | Some e \<Rightarrow>
          if is_busy e
          then db_set w msg reactionsCount
                 (s \<lparr> executed := Suc (executed s), yields := Suc (yields s) \<rparr>)
          else Some (Inl e))"

text \<open>\<^verbatim>\<open>async delete(guildId, channelId, messageId)\<close>.\<close>

partial_function (option) db_delete ::
  "'e world \<Rightarrow> string \<Rightarrow> string \<Rightarrow> string \<Rightarrow> store \<Rightarrow> (js_error + store) option" where
  "db_delete w guildId channelId messageId s =
     (case fault w (executed s) of
        None \<Rightarrow>
          Some (Inr (s \<lparr> reacted_messages :=
                           filter (\<lambda>r. \<not> same_key guildId channelId messageId r) (reacted_messages s),
                         executed := Suc (executed s) \<rparr>))
      | Some e \<Rightarrow>
          if is_busy e
          then db_delete w guildId channelId messageId
                 (s \<lparr> executed := Suc (executed s), yields := Suc (yields s) \<rparr>)
          else Some (Inl e))"

text \<open>
  The \<^verbatim>\<open>where\<close> clause of \<^verbatim>\<open>deleteOutdated\<close>:
  \<^verbatim>\<open>guild_id = @guildId and julianday('now') - julianday(timestamp) > @days\<close>.
  SQLite computes the difference in days as a floating-point number; the model compares
  the exact difference in milliseconds with \<open>days\<close> times 86400000.
\<close>

definition outdated :: "string \<Rightarrow> int \<Rightarrow> time \<Rightarrow> row \<Rightarrow> bool" where
  "outdated guildId days now r = (guild_id r = guildId \<and> now - timestamp r > days * 86400000)"

text \<open>
  What the async generator \<^verbatim>\<open>deleteOutdated\<close> yields: the count, then
  \<^verbatim>\<open>undefined\<close> once the delete statement has run.
\<close>

datatype yielded = Count nat | Deleted

text \<open>
  \<^verbatim>\<open>async *deleteOutdated(guildId, days)\<close>. The count statement and the delete
  statement are two executions, each with its own \<^verbatim>\<open>'now'\<close>. Both stand in one
  \<^verbatim>\<open>try\<close>: on the busy error the generator delegates to a fresh call of itself
  (\<^verbatim>\<open>yield*\<close>), after what it has already yielded. \<^verbatim>\<open>count(*)\<close> is a number, so
  the branch that throws \<^verbatim>\<open>count must be a number\<close> is never taken.
  The result is the sequence of yielded values and the store at the end.
\<close>

partial_function (option) deleteOutdated ::
  "'e world \<Rightarrow> string \<Rightarrow> int \<Rightarrow> store \<Rightarrow> (js_error + yielded list \<times> store) option" where
  "deleteOutdated w guildId days s =
     (case fault w (executed s) of
        Some e \<Rightarrow>
          if is_busy e
          then deleteOutdated w guildId days
                 (s \<lparr> executed := Suc (executed s), yields := Suc (yields s) \<rparr>)
          else Some (Inl e)
      | None \<Rightarrow>
          if 0 < length (filter (outdated guildId days (clock w (executed s))) (reacted_messages s))
          then
            (case fault w (Suc (executed s)) of
               Some e \<Rightarrow>
                 if is_busy e
                 then Option.bind
                        (deleteOutdated w guildId days
                           (s \<lparr> executed := Suc (Suc (executed s)), yields := Suc (yields s) \<rparr>))
                        (\<lambda>r. case r of
                                Inl e' \<Rightarrow> Some (Inl e')
                              | Inr (ys, s') \<Rightarrow>
                                  Some (Inr (Count (length (filter (outdated guildId days (clock w (executed s)))
                                                              (reacted_messages s))) # ys, s')))
                 else Some (Inl e)
             | None \<Rightarrow>
                 Some (Inr ([Count (length (filter (outdated guildId days (clock w (executed s)))
                                              (reacted_messages s))), Deleted],
                            s \<lparr> reacted_messages :=
                                  filter (\<lambda>r. \<not> outdated guildId days (clock w (Suc (executed s))) r)
                                    (reacted_messages s),
                                executed := Suc (Suc (executed s)) \<rparr>)))
          else Some (Inr ([Count (length (filter (outdated guildId days (clock w (executed s)))
                                            (reacted_messages s)))],
                          s \<lparr> executed := Suc (executed s) \<rparr>)))"

text \<open>\<^verbatim>\<open>vacuum()\<close>: the pragma \<^verbatim>\<open>incremental_vacuum\<close> changes no row.\<close>

definition vacuum :: "store \<Rightarrow> store" where
  "vacuum s = s \<lparr> vacuums := Suc (vacuums s) \<rparr>"

subsection \<open>WeeklyAwardConfig\<close>

definition register_sql :: "time \<Rightarrow> string \<Rightarrow> string \<Rightarrow> string \<Rightarrow> string \<Rightarrow> config_row list \<Rightarrow> config_row list" where
  "register_sql now guildId guildName channelId channelName rows =
     (if list_ex (\<lambda>r. cfg_guild_id r = guildId) rows
      then map (\<lambda>r. if cfg_guild_id r = guildId
                     then r \<lparr> cfg_guild_name := guildName, cfg_channel_id := channelId,
                             cfg_channel_name := channelName, cfg_updated_at := datetime_now now \<rparr>
                     else r) rows
      else rows @ [\<lparr> cfg_guild_id = guildId, cfg_guild_name = guildName, cfg_channel_id = channelId,
                     cfg_channel_name = channelName, cfg_created_at = datetime_now now,
                     cfg_updated_at = datetime_now now \<rparr>])"

partial_function (option) config_register ::
  "'e world \<Rightarrow> string \<Rightarrow> string \<Rightarrow> string \<Rightarrow> string \<Rightarrow> store \<Rightarrow> (js_error + store) option" where
  "config_register w guildId guildName channelId channelName s =
     (case fault w (executed s) of
        None \<Rightarrow>
          Some (Inr (s \<lparr> post_target :=
                           register_sql (clock w (executed s)) guildId guildName channelId channelName
                             (post_target s),
                         executed := Suc (executed s) \<rparr>))
      | Some e \<Rightarrow>
          if is_busy e
          then config_register w guildId guildName channelId channelName
                 (s \<lparr> executed := Suc (executed s), yields := Suc (yields s) \<rparr>)
          else Some (Inl e))"

partial_function (option) config_unregister ::
  "'e world \<Rightarrow> string \<Rightarrow> store \<Rightarrow> (js_error + store) option" where
  "config_unregister w guildId s =
     (case fault w (executed s) of
        None \<Rightarrow>
          Some (Inr (s \<lparr> post_target := filter (\<lambda>r. cfg_guild_id r \<noteq> guildId) (post_target s),
                         executed := Suc (executed s) \<rparr>))
      | Some e \<Rightarrow>
          if is_busy e
          then config_unregister w guildId
                 (s \<lparr> executed := Suc (executed s), yields := Suc (yields s) \<rparr>)
          else Some (Inl e))"

text \<open>
  \<^verbatim>\<open>WeeklyAwardConfig.get\<close>; its \<^verbatim>\<open>#isRow\<close> tests column types only, which hold
  of every row of the typed model.
\<close>

definition config_get :: "string \<Rightarrow> store \<Rightarrow> config_row option" where
  "config_get guildId s = find (\<lambda>r. cfg_guild_id r = guildId) (post_target s)"

definition config_records :: "store \<Rightarrow> config_row list" where
  "config_records s = post_target s"

subsection \<open>WeeklyAwardTime\<close>

definition time_set_sql :: "time \<Rightarrow> string \<Rightarrow> int \<Rightarrow> int \<Rightarrow> int \<Rightarrow> time_row list \<Rightarrow> time_row list" where
  "time_set_sql now guildId weekday hour minute rows =
     (if list_ex (\<lambda>r. tm_guild_id r = guildId) rows
      then map (\<lambda>r. if tm_guild_id r = guildId
                     then r \<lparr> tm_weekday := weekday, tm_hour := hour, tm_minute := minute,
                             tm_updated_at := datetime_now now \<rparr>
                     else r) rows
      else rows @ [\<lparr> tm_guild_id = guildId, tm_weekday = weekday, tm_hour = hour,
                     tm_minute = minute, tm_created_at = datetime_now now,
                     tm_updated_at = datetime_now now \<rparr>])"

partial_function (option) times_set ::
  "'e world \<Rightarrow> string \<Rightarrow> int \<Rightarrow> int \<Rightarrow> int \<Rightarrow> store \<Rightarrow> (js_error + store) option" where
  "times_set w guildId weekday hour minute s =
     (case fault w (executed s) of
        None \<Rightarrow>
          Some (Inr (s \<lparr> times_rows :=
                           time_set_sql (clock w (executed s)) guildId weekday hour minute (times_rows s),
                         executed := Suc (executed s) \<rparr>))
      | Some e \<Rightarrow>
          if is_busy e
          then times_set w guildId weekday hour minute
                 (s \<lparr> executed := Suc (executed s), yields := Suc (yields s) \<rparr>)
          else Some (Inl e))"

partial_function (option) times_delete ::
  "'e world \<Rightarrow> string \<Rightarrow> store \<Rightarrow> (js_error + store) option" where
  "times_delete w guildId s =
     (case fault w (executed s) of
        None \<Rightarrow>
          Some (Inr (s \<lparr> times_rows := filter (\<lambda>r. tm_guild_id r \<noteq> guildId) (times_rows s),
                         executed := Suc (executed s) \<rparr>))
      | Some e \<Rightarrow>
          if is_busy e
          then times_delete w guildId
                 (s \<lparr> executed := Suc (executed s), yields := Suc (yields s) \<rparr>)
          else Some (Inl e))"

text \<open>\<^verbatim>\<open>WeeklyAwardTime.get\<close>: the weekday goes through \<^verbatim>\<open>fromNumber\<close>.\<close>

definition times_get :: "'e world \<Rightarrow> string \<Rightarrow> store \<Rightarrow> time_row option" where
  "times_get w guildId s =
     (case find (\<lambda>r. tm_guild_id r = guildId) (times_rows s) of
        None \<Rightarrow> None
      | Some r \<Rightarrow> Some (r \<lparr> tm_weekday := fromNumber w (tm_weekday r) \<rparr>))"

section \<open>The tally and the report (weeklyAward.js, tick)\<close>

text \<open>
  \<^verbatim>\<open>fetchesMessage\<close>: a record of another guild gives \<^verbatim>\<open>null\<close>; otherwise the
  message is fetched, and \<^verbatim>\<open>null\<close> again when it cannot be.
\<close>

definition fetchesMessage :: "'e world \<Rightarrow> string \<Rightarrow> row \<Rightarrow> (message \<times> int) option" where
  "fetchesMessage w guildId record =
     (if guild_id record \<noteq> guildId then None
      else case fetchMessageByIds w guildId (channel_id record) (message_id record) of
             None \<Rightarrow> None
           | Some msg \<Rightarrow> Some (msg, reactions_count record))"

text \<open>The loop over \<^verbatim>\<open>db.iterate()\<close>, \<^verbatim>\<open>Promise.all\<close> and the filter of the nulls.\<close>

definition collect_messages :: "'e world \<Rightarrow> string \<Rightarrow> store \<Rightarrow> (message \<times> int) list" where
  "collect_messages w guildId s = List.map_filter (fetchesMessage w guildId) (db_iterate w s)"

text \<open>
  The \<^verbatim>\<open>reduce\<close> that builds \<^verbatim>\<open>talliedMessages\<close>: an object from reaction count
  to the messages with that count, here an association list. Spreading \<^verbatim>\<open>acc\<close> and
  setting one key keeps the place of a key that is there and adds a new key at the end.
\<close>

definition tally_step :: "(int \<times> message list) list \<Rightarrow> message \<times> int \<Rightarrow> (int \<times> message list) list" where
  "tally_step acc mr =
     AList.update (snd mr)
       ((case map_of acc (snd mr) of None \<Rightarrow> [] | Some ms \<Rightarrow> ms) @ [fst mr]) acc"

definition talliedMessages :: "(message \<times> int) list \<Rightarrow> (int \<times> message list) list" where
  "talliedMessages messages = foldl tally_step [] messages"

text \<open>
  \<^verbatim>\<open>Object.entries\<close> lists the keys that are array indices first, in ascending order,
  then the other keys in the order they were added.
\<close>

definition is_array_index :: "int \<Rightarrow> bool" where
  "is_array_index c = (0 \<le> c \<and> c < 4294967295)"

definition Object_entries :: "(int \<times> 'a) list \<Rightarrow> (int \<times> 'a) list" where
  "Object_entries obj =
     sort_key fst (filter (\<lambda>p. is_array_index (fst p)) obj)
       @ filter (\<lambda>p. \<not> is_array_index (fst p)) obj"

text \<open>
  \<^verbatim>\<open>.sort(([a, ], [b, ]) => (+b) - (+a))\<close>: a stable sort, descending in the count.
\<close>

definition messagesArray :: "(message \<times> int) list \<Rightarrow> (int \<times> message list) list" where
  "messagesArray messages =
     sort_key (\<lambda>p. - fst p) (Object_entries (talliedMessages messages))"

text \<open>
  The title of a content block is a Japanese sentence built from three parts that vary:
  the rank text (the word for "most" when the rank is 1, otherwise the rank's number
  followed by a counter word), a plural suffix when the group has two messages or more,
  and the count in brackets. The model keeps the three parts.
\<close>

datatype rank_text = Most | Nth nat

definition rankText :: "nat \<Rightarrow> rank_text" where
  "rankText rank = (if rank = 1 then Most else Nth rank)"

text \<open>The rank a reader sees in a title.\<close>

fun display_rank :: "rank_text \<Rightarrow> nat" where
  "display_rank Most = 1"
| "display_rank (Nth n) = n"

record 'e content_block =
  title_rank :: rank_text
  title_plural :: bool
  title_count :: int
  embeds :: "'e list"

text \<open>
  The loop \<^verbatim>\<open>let rank = 1; for (const [count, messages] of ...)\<close>: one block per
  group, then \<^verbatim>\<open>rank += messages.length\<close>.
\<close>

fun contents_loop :: "'e world \<Rightarrow> nat \<Rightarrow> (int \<times> message list) list \<Rightarrow> 'e content_block list" where
  "contents_loop w rank [] = []"
| "contents_loop w rank ((count, messages) # rest) =
     \<lparr> title_rank = rankText rank,
       title_plural = (2 \<le> length messages),
       title_count = count,
       embeds = concat (map (\<lambda>msg. messageToEmbeds w msg False) messages) \<rparr>
     # contents_loop w (rank + length messages) rest"

text \<open>
  \<^verbatim>\<open>messagesArray.filter((_, i) => i < Math.min(messagesArray.length, 3))\<close> keeps the
  first three entries.
\<close>

definition contents :: "'e world \<Rightarrow> (message \<times> int) list \<Rightarrow> 'e content_block list" where
  "contents w messages = contents_loop w 1 (take 3 (messagesArray messages))"

text \<open>What the tick sends, in order.\<close>

datatype 'e outgoing =
    Channel_send "'e content_block"
  | Start_thread
  | Thread_send "'e content_block"
  | Channel_send_no_winners

definition post_contents :: "'e content_block list \<Rightarrow> 'e outgoing list" where
  "post_contents cs =
     (case cs of
        [] \<Rightarrow> []
      | c # restContents \<Rightarrow>
          Channel_send c #
          (if restContents \<noteq> [] then Start_thread # map Thread_send restContents else []))"

section \<open>The scheduler (weeklyAward.js)\<close>

text \<open>
  A pending timer: its delay in milliseconds and the arguments of the call of
  \<^verbatim>\<open>tick\<close> its callback makes.
\<close>

record timer =
  t_delay :: nat
  t_guildId :: string
  t_guildName :: string
  t_channelName :: string
  t_weekday :: int
  t_hour :: int
  t_minute :: int

text \<open>
  The state of the process: the database, the map \<^verbatim>\<open>instances\<close> from guild id to
  timer handle, the pending timers of the runtime by handle, the next fresh handle, and
  what has been sent to the chat platform. Writing to the log is left out.
\<close>

record 'e bot =
  db :: store
  instances :: "string \<Rightarrow> nat option"
  timers :: "nat \<Rightarrow> timer option"
  next_handle :: nat
  sent :: "'e outgoing list"

text \<open>\<^verbatim>\<open>dayjs().tz()\<close> as far as the tick reads it.\<close>

record now_reading =
  now_day :: int
  now_hour :: int
  now_minute :: int

text \<open>
  \<^verbatim>\<open>const timeout = setTimeout(() => tick(...), delay); instances.set(guildId, timeout)\<close>.
\<close>

definition schedule ::
  "nat \<Rightarrow> string \<Rightarrow> string \<Rightarrow> string \<Rightarrow> int \<Rightarrow> int \<Rightarrow> int \<Rightarrow> 'e bot \<Rightarrow> 'e bot" where
  "schedule delay guildId guildName channelName weekday hour minute b =
     b \<lparr> instances := (instances b)(guildId \<mapsto> next_handle b),
         timers := (timers b)(next_handle b \<mapsto>
                      \<lparr> t_delay = delay, t_guildId = guildId, t_guildName = guildName,
                        t_channelName = channelName, t_weekday = weekday, t_hour = hour,
                        t_minute = minute \<rparr>),
         next_handle := Suc (next_handle b) \<rparr>"

text \<open>
  The first guild with the configured name, then the first channel of its cache with the
  configured name.
\<close>

definition find_channel :: "'e world \<Rightarrow> string \<Rightarrow> string \<Rightarrow> channel option" where
  "find_channel w guildName channelName =
     (case find (\<lambda>g. g_name g = guildName) (guilds w) of
        None \<Rightarrow> None
      | Some g \<Rightarrow> find (\<lambda>c. ch_name c = channelName) (g_channels g))"

text \<open>
  The loop \<^verbatim>\<open>for await (const count of db.deleteOutdated(guildId, 7))\<close>: a number is
  logged, the other value calls \<^verbatim>\<open>db.vacuum()\<close>.
\<close>

definition consume_yielded :: "yielded list \<Rightarrow> store \<Rightarrow> store" where
  "consume_yielded ys s = foldl (\<lambda>s' y. case y of Count n \<Rightarrow> s' | Deleted \<Rightarrow> vacuum s') s ys"

text \<open>
  The body of \<^verbatim>\<open>if (channel?.type === ChannelType.GuildText)\<close>. Sending to the
  channel and rendering the embeds are taken to succeed.
\<close>

definition report :: "'e world \<Rightarrow> string \<Rightarrow> 'e bot \<Rightarrow> (js_error + 'e bot) option" where
  "report w guildId b =
     Option.bind (deleteOutdated w guildId 7 (db b))
       (\<lambda>r. case r of
               Inl e \<Rightarrow> Some (Inl e)
             | Inr (ys, s) \<Rightarrow>
                 Some (Inr
                   (if list_ex (\<lambda>r. 0 < reactions_count r) (db_all w (consume_yielded ys s))
                    then b \<lparr> db := consume_yielded ys s,
                             sent := sent b @ post_contents
                               (contents w (collect_messages w guildId (consume_yielded ys s))) \<rparr>
                    else b \<lparr> db := consume_yielded ys s,
                             sent := sent b @ [Channel_send_no_winners] \<rparr>)))"

text \<open>
  \<^verbatim>\<open>tick\<close>. The delay \<^verbatim>\<open>86400 * 1000 * 6.9\<close> is 596160000 milliseconds.
  An exception ends the tick before it schedules the next one.
\<close>

definition tick ::
  "'e world \<Rightarrow> now_reading \<Rightarrow> string \<Rightarrow> string \<Rightarrow> string \<Rightarrow> int \<Rightarrow> int \<Rightarrow> int \<Rightarrow> 'e bot
     \<Rightarrow> (js_error + 'e bot) option" where
  "tick w now guildId guildName channelName weekday hour minute b =
     (if now_day now = weekday \<and> now_hour now = hour \<and> now_minute now = minute
      then Option.bind
             (case find_channel w guildName channelName of
                None \<Rightarrow> Some (Inr b)
              | Some ch \<Rightarrow> if ch_type ch = GuildText then report w guildId b else Some (Inr b))
             (\<lambda>r. case r of
                     Inl e \<Rightarrow> Some (Inl e)
                   | Inr b' \<Rightarrow>
                       Some (Inr (schedule 596160000 guildId guildName channelName weekday hour minute b')))
      else Some (Inr (schedule 1000 guildId guildName channelName weekday hour minute b)))"

text \<open>
  \<^verbatim>\<open>stopAward\<close>: without a config record it logs and returns; otherwise it logs and,
  when \<^verbatim>\<open>instances\<close> has the guild, clears that timer.
\<close>

definition stopAward :: "string \<Rightarrow> 'e bot \<Rightarrow> 'e bot" where
  "stopAward guildId b =
     (case config_get guildId (db b) of
        None \<Rightarrow> b
      | Some configRecord \<Rightarrow>
          (case instances b guildId of
             None \<Rightarrow> b
           | Some h \<Rightarrow> b \<lparr> timers := (timers b)(h := None) \<rparr>))"

text \<open>\<^verbatim>\<open>startAward\<close>; the first tick runs with the clock reading \<open>now\<close>.\<close>

definition startAward :: "'e world \<Rightarrow> now_reading \<Rightarrow> string \<Rightarrow> 'e bot \<Rightarrow> (js_error + 'e bot) option" where
  "startAward w now guildId b =
     (case config_get guildId (db b) of
        None \<Rightarrow> Some (Inr b)
      | Some configRecord \<Rightarrow>
          (case times_get w guildId (db b) of
             None \<Rightarrow> Some (Inr b)
           | Some timeRecord \<Rightarrow>
               tick w now guildId (cfg_guild_name configRecord) (cfg_channel_name configRecord)
                 (tm_weekday timeRecord) (tm_hour timeRecord) (tm_minute timeRecord)
                 (if instances b guildId \<noteq> None then stopAward guildId b else b)))"

section \<open>The reaction handlers (weeklyAward.js)\<close>

text \<open>\<^verbatim>\<open>reactions.cache.reduce((acc, reaction) => acc + reaction.count, 0)\<close>.\<close>

definition total_reactions :: "message \<Rightarrow> int" where
  "total_reactions msg = foldl (+) 0 (m_reactions msg)"

definition with_db :: "'e bot \<Rightarrow> (js_error + store) option \<Rightarrow> (js_error + 'e bot) option" where
  "with_db b r =
     (case r of
        None \<Rightarrow> None
      | Some (Inl e) \<Rightarrow> Some (Inl e)
      | Some (Inr s) \<Rightarrow> Some (Inr (b \<lparr> db := s \<rparr>)))"

text \<open>
  The handler of \<^verbatim>\<open>Events.MessageReactionAdd\<close>; \<open>msg\<close> is the fetched message.
\<close>

definition on_MessageReactionAdd :: "'e world \<Rightarrow> message \<Rightarrow> 'e bot \<Rightarrow> (js_error + 'e bot) option" where
  "on_MessageReactionAdd w msg b =
     (if m_author_bot msg \<or> \<not> m_inGuild msg then Some (Inr b)
      else if config_get (m_guildId msg) (db b) = None then Some (Inr b)
      else with_db b (db_set w msg (total_reactions msg) (db b)))"

text \<open>The handler of \<^verbatim>\<open>Events.MessageReactionRemove\<close>.\<close>

definition on_MessageReactionRemove :: "'e world \<Rightarrow> message \<Rightarrow> 'e bot \<Rightarrow> (js_error + 'e bot) option" where
  "on_MessageReactionRemove w msg b =
     (if m_author_bot msg \<or> \<not> m_inGuild msg then Some (Inr b)
      else if 0 < total_reactions msg
           then with_db b (db_set w msg (total_reactions msg) (db b))
           else with_db b (db_delete w (m_guildId msg) (m_channelId msg) (m_id msg) (db b)))"

section \<open>Predicates of the specification\<close>

text \<open>
  The next \<open>n\<close> statement executions from index \<open>k\<close> on all raise the busy error.
\<close>

fun busy_run :: "'e world \<Rightarrow> nat \<Rightarrow> nat \<Rightarrow> bool" where
  "busy_run w k 0 = True"
| "busy_run w k (Suc n) =
     ((case fault w k of None \<Rightarrow> False | Some e \<Rightarrow> is_busy e) \<and> busy_run w (Suc k) n)"

text \<open>
  The busy-retry contract of a method that runs one statement \<open>stmt\<close>: after any number
  \<open>n\<close> of busy failures in a row, each followed by one yield, the next execution decides.
  If it succeeds the method returns the effect of the statement at that instant; if it
  raises an error that is not the busy error, the method raises that same error. A busy
  error never reaches the caller.
\<close>

definition busy_retry_contract ::
  "'e world \<Rightarrow> (store \<Rightarrow> (js_error + store) option) \<Rightarrow> (time \<Rightarrow> store \<Rightarrow> store) \<Rightarrow> bool" where
  "busy_retry_contract w op stmt =
     ((\<forall>s n. busy_run w (executed s) n \<longrightarrow>
         (case fault w (executed s + n) of
            None \<Rightarrow>
              op s = Some (Inr (stmt (clock w (executed s + n))
                                  (s \<lparr> yields := yields s + n, executed := Suc (executed s + n) \<rparr>)))
          | Some e \<Rightarrow> is_busy e \<or> op s = Some (Inl e)))
      \<and> (\<forall>s e. op s = Some (Inl e) \<longrightarrow> \<not> is_busy e))"

text \<open>
  What one attempt of \<^verbatim>\<open>deleteOutdated\<close> does when neither of its statements fails:
  it yields the number of the guild's rows whose age, from \<^verbatim>\<open>timestamp\<close> to the
  instant of the count statement, exceeds \<open>days\<close> days; when that number is positive
  it removes the guild's rows whose age exceeds \<open>days\<close> days at the instant of the
  delete statement and yields the completion value.
\<close>

definition clean_attempt :: "'e world \<Rightarrow> string \<Rightarrow> int \<Rightarrow> store \<Rightarrow> yielded list \<times> store" where
  "clean_attempt w guildId days s =
     (if filter (\<lambda>r. guild_id r = guildId \<and> days * 86400000 < clock w (executed s) - timestamp r)
           (reacted_messages s) = []
      then ([Count 0], s \<lparr> executed := Suc (executed s) \<rparr>)
      else ([Count (length (filter
                      (\<lambda>r. guild_id r = guildId \<and> days * 86400000 < clock w (executed s) - timestamp r)
                      (reacted_messages s))),
             Deleted],
            s \<lparr> reacted_messages :=
                  filter (\<lambda>r. \<not> (guild_id r = guildId
                                   \<and> days * 86400000 < clock w (Suc (executed s)) - timestamp r))
                    (reacted_messages s),
                executed := Suc (Suc (executed s)) \<rparr>))"

text \<open>
  The busy-retry contract of the generator \<^verbatim>\<open>deleteOutdated\<close>, which runs two
  statements.
  \<^item> Busy failures of the count statement are skipped with one yield each.
  \<^item> An error of the count statement or of the delete statement that is not the busy
    error is raised unchanged.
  \<^item> A busy failure of the delete statement is followed by one yield and a fresh call,
    whose yielded values follow the count already yielded; no row has been removed.
  \<^item> An attempt without a failure gives \<open>clean_attempt\<close>.
  \<^item> A busy error never reaches the caller.
  \<^item> When every failure is a busy failure and they stop at some point, the generator
    finishes: before the last attempt it has yielded counts only, the last attempt is a
    clean one on the rows as they were at the start, and the number of yields to the
    scheduler is the number of failures met.
\<close>

definition generator_retry_contract :: "'e world \<Rightarrow> string \<Rightarrow> int \<Rightarrow> bool" where
  "generator_retry_contract w guildId days =
     ((\<forall>s n. busy_run w (executed s) n \<longrightarrow>
         deleteOutdated w guildId days s =
         deleteOutdated w guildId days (s \<lparr> executed := executed s + n, yields := yields s + n \<rparr>))
      \<and> (\<forall>s e. fault w (executed s) = Some e \<and> \<not> is_busy e \<longrightarrow>
            deleteOutdated w guildId days s = Some (Inl e))
      \<and> (\<forall>s e. fault w (executed s) = None
               \<and> filter (\<lambda>r. guild_id r = guildId
                               \<and> days * 86400000 < clock w (executed s) - timestamp r)
                    (reacted_messages s) \<noteq> []
               \<and> fault w (Suc (executed s)) = Some e \<and> \<not> is_busy e \<longrightarrow>
            deleteOutdated w guildId days s = Some (Inl e))
      \<and> (\<forall>s e. fault w (executed s) = None
               \<and> filter (\<lambda>r. guild_id r = guildId
                               \<and> days * 86400000 < clock w (executed s) - timestamp r)
                    (reacted_messages s) \<noteq> []
               \<and> fault w (Suc (executed s)) = Some e \<and> is_busy e \<longrightarrow>
            deleteOutdated w guildId days s =
              Option.bind
                (deleteOutdated w guildId days
                   (s \<lparr> executed := Suc (Suc (executed s)), yields := Suc (yields s) \<rparr>))
                (\<lambda>r. case r of
                        Inl e' \<Rightarrow> Some (Inl e')
                      | Inr (ys, s') \<Rightarrow>
                          Some (Inr (Count (length (filter
                                       (\<lambda>r. guild_id r = guildId
                                            \<and> days * 86400000 < clock w (executed s) - timestamp r)
                                       (reacted_messages s))) # ys, s'))))
      \<and> (\<forall>s. fault w (executed s) = None
             \<and> (filter (\<lambda>r. guild_id r = guildId
                              \<and> days * 86400000 < clock w (executed s) - timestamp r)
                   (reacted_messages s) = []
                \<or> fault w (Suc (executed s)) = None) \<longrightarrow>
            deleteOutdated w guildId days s = Some (Inr (clean_attempt w guildId days s)))
      \<and> (\<forall>s e. deleteOutdated w guildId days s = Some (Inl e) \<longrightarrow> \<not> is_busy e)
      \<and> (\<forall>s N. (\<forall>i e. fault w i = Some e \<longrightarrow> is_busy e \<and> i < N) \<longrightarrow>
            (\<exists>j prefix.
                executed s \<le> j \<and> fault w j = None
              \<and> list_all (\<lambda>y. y \<noteq> Deleted) prefix
              \<and> deleteOutdated w guildId days s =
                  Some (Inr (prefix @ fst (clean_attempt w guildId days
                               (s \<lparr> executed := j,
                                    yields := yields s
                                      + length (filter (\<lambda>i. fault w i \<noteq> None) [executed s..<j]) \<rparr>)),
                             snd (clean_attempt w guildId days
                               (s \<lparr> executed := j,
                                    yields := yields s
                                      + length (filter (\<lambda>i. fault w i \<noteq> None) [executed s..<j]) \<rparr>)))))))"

text \<open>
  The groups as the specification words them: the messages with exactly the count \<open>c\<close>,
  in the order given, and the distinct counts in descending order.
\<close>

definition group_of :: "int \<Rightarrow> (message \<times> int) list \<Rightarrow> message list" where
  "group_of c messages = map fst (filter (\<lambda>mr. snd mr = c) messages)"

definition counts_descending :: "(message \<times> int) list \<Rightarrow> int list" where
  "counts_descending messages = rev (sort (remdups (map snd messages)))"

text \<open>
  The configured names resolve to a guild-text channel: the condition of
  \<^verbatim>\<open>if (channel?.type === ChannelType.GuildText)\<close>.
\<close>

definition resolves_to_text :: "'e world \<Rightarrow> string \<Rightarrow> string \<Rightarrow> bool" where
  "resolves_to_text w guildName channelName =
     (case find_channel w guildName channelName of
        None \<Rightarrow> False
      | Some ch \<Rightarrow> ch_type ch = GuildText)"

text \<open>The current time matches the configured one.\<close>

definition time_matches :: "now_reading \<Rightarrow> int \<Rightarrow> int \<Rightarrow> int \<Rightarrow> bool" where
  "time_matches now weekday hour minute =
     (now_day now = weekday \<and> now_hour now = hour \<and> now_minute now = minute)"



text \<open>
  What the table looks like after the row of a message has been stored with the total
  of its reactions at the instant \<open>now\<close>: a row with the message's key is there; every
  such row holds the total, the message's content and names, and the instant (to the
  second) as \<^verbatim>\<open>updated_at\<close>; the rows with other keys are as before; when the key
  was there already no row is added and \<^verbatim>\<open>url\<close>, \<^verbatim>\<open>timestamp\<close> and
  \<^verbatim>\<open>created_at\<close> stay, and otherwise exactly one row is added, with the message's
  creation time as \<^verbatim>\<open>timestamp\<close>.
\<close>

definition row_holds_total :: "time \<Rightarrow> message \<Rightarrow> row list \<Rightarrow> row list \<Rightarrow> bool" where
  "row_holds_total now msg rows rows' =
     (list_ex (\<lambda>r. guild_id r = m_guildId msg \<and> channel_id r = m_channelId msg \<and> message_id r = m_id msg)
        rows'
      \<and> list_all
          (\<lambda>r. guild_id r = m_guildId msg \<and> channel_id r = m_channelId msg \<and> message_id r = m_id msg \<longrightarrow>
               reactions_count r = sum_list (m_reactions msg)
             \<and> content r = m_content msg
             \<and> guild_name r = (case m_guild_name msg of None \<Rightarrow> [] | Some n \<Rightarrow> n)
             \<and> channel_name r = (case m_channel_name msg of None \<Rightarrow> [] | Some n \<Rightarrow> n)
             \<and> author r = (case m_author_username msg of None \<Rightarrow> [] | Some n \<Rightarrow> n)
             \<and> updated_at r = now - now mod 1000)
          rows'
      \<and> filter (\<lambda>r. \<not> (guild_id r = m_guildId msg \<and> channel_id r = m_channelId msg
                          \<and> message_id r = m_id msg)) rows'
        = filter (\<lambda>r. \<not> (guild_id r = m_guildId msg \<and> channel_id r = m_channelId msg
                            \<and> message_id r = m_id msg)) rows
      \<and> (if list_ex (\<lambda>r. guild_id r = m_guildId msg \<and> channel_id r = m_channelId msg
                           \<and> message_id r = m_id msg) rows
          then map (\<lambda>r. (guild_id r, channel_id r, message_id r, url r, timestamp r, created_at r)) rows'
             = map (\<lambda>r. (guild_id r, channel_id r, message_id r, url r, timestamp r, created_at r)) rows
          else rows' = rows @
             [\<lparr> guild_id = m_guildId msg, channel_id = m_channelId msg, message_id = m_id msg,
                guild_name = (case m_guild_name msg of None \<Rightarrow> [] | Some n \<Rightarrow> n),
                channel_name = (case m_channel_name msg of None \<Rightarrow> [] | Some n \<Rightarrow> n),
                content = m_content msg,
                author = (case m_author_username msg of None \<Rightarrow> [] | Some n \<Rightarrow> n),
                url = m_url msg,
                reactions_count = sum_list (m_reactions msg),
                timestamp = m_createdTimestamp msg,
                created_at = now - now mod 1000,
                updated_at = now - now mod 1000 \<rparr>]))"

section \<open>Concrete inputs\<close>

definition busy_error :: js_error where
  "busy_error = TypeError ''This database connection is busy executing a query''"

definition sample_message :: "string \<Rightarrow> string \<Rightarrow> string \<Rightarrow> time \<Rightarrow> message" where
  "sample_message guildId channelId messageId created =
     \<lparr> m_id = messageId, m_guildId = guildId, m_channelId = channelId,
       m_guild_name = Some ''inugoya'', m_channel_name = Some ''general'',
       m_content = ''hello'', m_author_username = Some ''alice'', m_author_bot = False,
       m_url = ''https://discord.com/channels/1/2/3'', m_createdTimestamp = created,
       m_inGuild = True, m_reactions = [] \<rparr>"

definition sample_row :: "string \<Rightarrow> string \<Rightarrow> string \<Rightarrow> int \<Rightarrow> time \<Rightarrow> row" where
  "sample_row guildId channelId messageId reactionsCount created =
     \<lparr> guild_id = guildId, channel_id = channelId, message_id = messageId,
       guild_name = ''inugoya'', channel_name = ''general'', content = ''hello'',
       author = ''alice'', url = ''https://discord.com/channels/1/2/3'',
       reactions_count = reactionsCount, timestamp = created,
       created_at = created, updated_at = created \<rparr>"

text \<open>
  A world whose clock starts on day 1000 and advances one second per statement, with
  one guild \<^verbatim>\<open>inugoya\<close> that has a voice channel and the text channel
  \<^verbatim>\<open>awards\<close>, where every message can be fetched and is rendered as its id.
\<close>

definition sample_world :: "(nat \<Rightarrow> js_error option) \<Rightarrow> string world" where
  "sample_world f =
     \<lparr> fault = f,
       clock = (\<lambda>k. 86400000000 + 1000 * int k),
       isUrl = (\<lambda>u. True),
       fromNumber = (\<lambda>n. n),
       guilds = [\<lparr> g_name = ''inugoya'',
                   g_channels = [\<lparr> ch_name = ''lounge'', ch_type = GuildVoice \<rparr>,
                                 \<lparr> ch_name = ''awards'', ch_type = GuildText \<rparr>] \<rparr>],
       fetchMessageByIds = (\<lambda>g c m. Some (sample_message g c m 0)),
       messageToEmbeds = (\<lambda>msg addReactionField. [m_id msg]) \<rparr>"

definition empty_store :: store where
  "empty_store =
     \<lparr> reacted_messages = [], post_target = [], times_rows = [], executed = 0, yields = 0, vacuums = 0 \<rparr>"

definition sample_bot :: "store \<Rightarrow> string bot" where
  "sample_bot s =
     \<lparr> db = s, instances = (\<lambda>g. None), timers = (\<lambda>h. None), next_handle = 0, sent = [] \<rparr>"

definition sample_config :: config_row where
  "sample_config =
     \<lparr> cfg_guild_id = ''1'', cfg_guild_name = ''inugoya'', cfg_channel_id = ''9'',
       cfg_channel_name = ''awards'', cfg_created_at = 0, cfg_updated_at = 0 \<rparr>"

definition sample_timer :: timer where
  "sample_timer =
     \<lparr> t_delay = 1000, t_guildId = ''1'', t_guildName = ''inugoya'', t_channelName = ''awards'',
       t_weekday = 1, t_hour = 9, t_minute = 0 \<rparr>"

section \<open>The busy retry\<close>

lemma retry_shape_skips_busy:
  assumes unfold: "\<And>s. op s =
      (case fault w (executed s) of
         None \<Rightarrow> Some (Inr (stmt (clock w (executed s)) (s \<lparr> executed := Suc (executed s) \<rparr>)))
       | Some e \<Rightarrow> if is_busy e
                   then op (s \<lparr> executed := Suc (executed s), yields := Suc (yields s) \<rparr>)
                   else Some (Inl e))"
  shows "busy_run w (executed s) n \<Longrightarrow>
         op s = op (s \<lparr> executed := executed s + n, yields := yields s + n \<rparr>)"
proof (induction n arbitrary: s)
  case 0
  then show ?case by simp
next
  case (Suc n)
  from Suc.prems obtain e where e: "fault w (executed s) = Some e" "is_busy e"
    and rest: "busy_run w (Suc (executed s)) n"
    by (auto split: option.splits)
  have "op s = op (s \<lparr> executed := Suc (executed s), yields := Suc (yields s) \<rparr>)"
    by (subst unfold) (simp add: e)
  also have "\<dots> = op (s \<lparr> executed := executed s + Suc n, yields := yields s + Suc n \<rparr>)"
    using Suc.IH [of "s \<lparr> executed := Suc (executed s), yields := Suc (yields s) \<rparr>"] rest
    by simp
  finally show ?case .
qed

lemma retry_shape_contract:
  assumes unfold: "\<And>s. op s =
      (case fault w (executed s) of
         None \<Rightarrow> Some (Inr (stmt (clock w (executed s)) (s \<lparr> executed := Suc (executed s) \<rparr>)))
       | Some e \<Rightarrow> if is_busy e
                   then op (s \<lparr> executed := Suc (executed s), yields := Suc (yields s) \<rparr>)
                   else Some (Inl e))"
    and no_busy: "\<And>s e. op s = Some (Inl e) \<Longrightarrow> \<not> is_busy e"
  shows "busy_retry_contract w op stmt"
proof -
  have "case fault w (executed s + n) of
          None \<Rightarrow>
            op s = Some (Inr (stmt (clock w (executed s + n))
                                (s \<lparr> yields := yields s + n, executed := Suc (executed s + n) \<rparr>)))
        | Some e \<Rightarrow> is_busy e \<or> op s = Some (Inl e)"
    if run: "busy_run w (executed s) n" for s n
  proof -
    let ?t = "s \<lparr> executed := executed s + n, yields := yields s + n \<rparr>"
    have skip: "op s = op ?t"
      using retry_shape_skips_busy [where op = op and w = w and stmt = stmt, OF unfold run] .
    show ?thesis
    proof (cases "fault w (executed s + n)")
      case None
      have "op ?t = Some (Inr (stmt (clock w (executed s + n))
                                (s \<lparr> yields := yields s + n, executed := Suc (executed s + n) \<rparr>)))"
        by (subst unfold) (simp add: None)
      with skip None show ?thesis by simp
    next
      case (Some e)
      show ?thesis
      proof (cases "is_busy e")
        case True
        with Some show ?thesis by simp
      next
        case False
        have "op ?t = Some (Inl e)"
          by (subst unfold) (simp add: Some False)
        with skip Some show ?thesis by simp
      qed
    qed
  qed
  with no_busy show ?thesis
    unfolding busy_retry_contract_def by blast
qed

lemma db_set_no_busy:
  assumes "db_set w msg rc s = Some (Inl e)"
  shows "\<not> is_busy e"
proof -
  have "\<forall>e. r = Inl e \<longrightarrow> \<not> is_busy e" if "db_set w msg rc s = Some r" for r
    by (rule db_set.raw_induct [where P = "\<lambda>_ _ _ _ r. \<forall>e. r = Inl e \<longrightarrow> \<not> is_busy e", OF _ that])
       (auto split: option.splits if_splits)
  with assms show ?thesis by blast
qed

lemma db_set_contract:
  "busy_retry_contract w (db_set w msg rc)
     (\<lambda>now s. s \<lparr> reacted_messages := upsert_sql now msg rc (reacted_messages s) \<rparr>)"
proof (rule retry_shape_contract)
  fix s
  show "db_set w msg rc s =
      (case fault w (executed s) of
         None \<Rightarrow> Some (Inr ((\<lambda>now s. s \<lparr> reacted_messages := upsert_sql now msg rc (reacted_messages s) \<rparr>)
                             (clock w (executed s)) (s \<lparr> executed := Suc (executed s) \<rparr>)))
       | Some e \<Rightarrow> if is_busy e
                   then db_set w msg rc (s \<lparr> executed := Suc (executed s), yields := Suc (yields s) \<rparr>)
                   else Some (Inl e))"
    by (subst db_set.simps) (simp split: option.splits)
next
  fix s e
  show "db_set w msg rc s = Some (Inl e) \<Longrightarrow> \<not> is_busy e"
    by (rule db_set_no_busy)
qed


lemma deleteOutdated_skips_busy:
  "busy_run w (executed s) n \<Longrightarrow>
   deleteOutdated w g d s =
   deleteOutdated w g d (s \<lparr> executed := executed s + n, yields := yields s + n \<rparr>)"
proof (induction n arbitrary: s)
  case 0
  then show ?case by simp
next
  case (Suc n)
  from Suc.prems obtain e where e: "fault w (executed s) = Some e" "is_busy e"
    and rest: "busy_run w (Suc (executed s)) n"
    by (auto split: option.splits)
  have "deleteOutdated w g d s =
        deleteOutdated w g d (s \<lparr> executed := Suc (executed s), yields := Suc (yields s) \<rparr>)"
    by (subst deleteOutdated.simps) (simp add: e)
  also have "\<dots> = deleteOutdated w g d (s \<lparr> executed := executed s + Suc n, yields := yields s + Suc n \<rparr>)"
    using Suc.IH [of "s \<lparr> executed := Suc (executed s), yields := Suc (yields s) \<rparr>"] rest
    by simp
  finally show ?case .
qed

lemma deleteOutdated_no_busy:
  assumes "deleteOutdated w g d s = Some (Inl e)"
  shows "\<not> is_busy e"
proof -
  have "\<forall>e. r = Inl e \<longrightarrow> \<not> is_busy e" if "deleteOutdated w g d s = Some r" for r
    by (rule deleteOutdated.raw_induct
          [where P = "\<lambda>_ _ _ _ r. \<forall>e. r = Inl e \<longrightarrow> \<not> is_busy e", OF _ that])
       (auto split: option.splits if_splits sum.splits prod.splits simp: bind_eq_Some_conv;
        metis old.sum.exhaust surj_pair)
  with assms show ?thesis by blast
qed

lemma deleteOutdated_count_fails:
  "fault w (executed s) = Some e \<Longrightarrow> \<not> is_busy e \<Longrightarrow> deleteOutdated w g d s = Some (Inl e)"
  by (subst deleteOutdated.simps) simp

lemma deleteOutdated_delete_fails:
  "fault w (executed s) = None \<Longrightarrow>
   0 < length (filter (outdated g d (clock w (executed s))) (reacted_messages s)) \<Longrightarrow>
   fault w (Suc (executed s)) = Some e \<Longrightarrow> \<not> is_busy e \<Longrightarrow>
   deleteOutdated w g d s = Some (Inl e)"
  by (subst deleteOutdated.simps) simp

lemma deleteOutdated_nothing_outdated:
  "fault w (executed s) = None \<Longrightarrow>
   filter (outdated g d (clock w (executed s))) (reacted_messages s) = [] \<Longrightarrow>
   deleteOutdated w g d s = Some (Inr ([Count 0], s \<lparr> executed := Suc (executed s) \<rparr>))"
  by (subst deleteOutdated.simps) simp

lemma deleteOutdated_clean:
  "fault w (executed s) = None \<Longrightarrow>
   filter (outdated g d (clock w (executed s))) (reacted_messages s) \<noteq> [] \<Longrightarrow>
   fault w (Suc (executed s)) = None \<Longrightarrow>
   deleteOutdated w g d s =
     Some (Inr ([Count (length (filter (outdated g d (clock w (executed s))) (reacted_messages s))), Deleted],
                s \<lparr> reacted_messages :=
                      filter (\<lambda>r. \<not> outdated g d (clock w (Suc (executed s))) r) (reacted_messages s),
                    executed := Suc (Suc (executed s)) \<rparr>))"
  by (subst deleteOutdated.simps) simp


lemma db_delete_no_busy:
  assumes "db_delete w guildId channelId messageId s = Some (Inl e)"
  shows "\<not> is_busy e"
proof -
  have "\<forall>e. r = Inl e \<longrightarrow> \<not> is_busy e" if "db_delete w guildId channelId messageId s = Some r" for r
    by (rule db_delete.raw_induct [where P = "\<lambda>_ _ _ _ _ r. \<forall>e. r = Inl e \<longrightarrow> \<not> is_busy e", OF _ that])
       (auto split: option.splits if_splits)
  with assms show ?thesis by blast
qed

lemma db_delete_contract:
  "busy_retry_contract w (db_delete w guildId channelId messageId)
     (\<lambda>now s. s \<lparr> reacted_messages := filter (\<lambda>r. \<not> same_key guildId channelId messageId r) (reacted_messages s) \<rparr>)"
proof (rule retry_shape_contract)
  fix s
  show "db_delete w guildId channelId messageId s =
      (case fault w (executed s) of
         None \<Rightarrow> Some (Inr ((\<lambda>now s. s \<lparr> reacted_messages := filter (\<lambda>r. \<not> same_key guildId channelId messageId r) (reacted_messages s) \<rparr>)
                             (clock w (executed s)) (s \<lparr> executed := Suc (executed s) \<rparr>)))
       | Some e \<Rightarrow> if is_busy e
                   then db_delete w guildId channelId messageId (s \<lparr> executed := Suc (executed s), yields := Suc (yields s) \<rparr>)
                   else Some (Inl e))"
    by (subst db_delete.simps) (simp split: option.splits)
next
  fix s e
  show "db_delete w guildId channelId messageId s = Some (Inl e) \<Longrightarrow> \<not> is_busy e"
    by (rule db_delete_no_busy)
qed

lemma config_register_no_busy:
  assumes "config_register w guildId guildName channelId channelName s = Some (Inl e)"
  shows "\<not> is_busy e"
proof -
  have "\<forall>e. r = Inl e \<longrightarrow> \<not> is_busy e" if "config_register w guildId guildName channelId channelName s = Some r" for r
    by (rule config_register.raw_induct [where P = "\<lambda>_ _ _ _ _ _ r. \<forall>e. r = Inl e \<longrightarrow> \<not> is_busy e", OF _ that])
       (auto split: option.splits if_splits)
  with assms show ?thesis by blast
qed

lemma config_register_contract:
  "busy_retry_contract w (config_register w guildId guildName channelId channelName)
     (\<lambda>now s. s \<lparr> post_target := register_sql now guildId guildName channelId channelName (post_target s) \<rparr>)"
proof (rule retry_shape_contract)
  fix s
  show "config_register w guildId guildName channelId channelName s =
      (case fault w (executed s) of
         None \<Rightarrow> Some (Inr ((\<lambda>now s. s \<lparr> post_target := register_sql now guildId guildName channelId channelName (post_target s) \<rparr>)
                             (clock w (executed s)) (s \<lparr> executed := Suc (executed s) \<rparr>)))
       | Some e \<Rightarrow> if is_busy e
                   then config_register w guildId guildName channelId channelName (s \<lparr> executed := Suc (executed s), yields := Suc (yields s) \<rparr>)
                   else Some (Inl e))"
    by (subst config_register.simps) (simp split: option.splits)
next
  fix s e
  show "config_register w guildId guildName channelId channelName s = Some (Inl e) \<Longrightarrow> \<not> is_busy e"
    by (rule config_register_no_busy)
qed

lemma config_unregister_no_busy:
  assumes "config_unregister w guildId s = Some (Inl e)"
  shows "\<not> is_busy e"
proof -
  have "\<forall>e. r = Inl e \<longrightarrow> \<not> is_busy e" if "config_unregister w guildId s = Some r" for r
    by (rule config_unregister.raw_induct [where P = "\<lambda>_ _ _ r. \<forall>e. r = Inl e \<longrightarrow> \<not> is_busy e", OF _ that])
       (auto split: option.splits if_splits)
  with assms show ?thesis by blast
qed

lemma config_unregister_contract:
  "busy_retry_contract w (config_unregister w guildId)
     (\<lambda>now s. s \<lparr> post_target := filter (\<lambda>r. cfg_guild_id r \<noteq> guildId) (post_target s) \<rparr>)"
proof (rule retry_shape_contract)
  fix s
  show "config_unregister w guildId s =
      (case fault w (executed s) of
         None \<Rightarrow> Some (Inr ((\<lambda>now s. s \<lparr> post_target := filter (\<lambda>r. cfg_guild_id r \<noteq> guildId) (post_target s) \<rparr>)
                             (clock w (executed s)) (s \<lparr> executed := Suc (executed s) \<rparr>)))
       | Some e \<Rightarrow> if is_busy e
                   then config_unregister w guildId (s \<lparr> executed := Suc (executed s), yields := Suc (yields s) \<rparr>)
                   else Some (Inl e))"
    by (subst config_unregister.simps) (simp split: option.splits)
next
  fix s e
  show "config_unregister w guildId s = Some (Inl e) \<Longrightarrow> \<not> is_busy e"
    by (rule config_unregister_no_busy)
qed

lemma times_set_no_busy:
  assumes "times_set w guildId weekday hour minute s = Some (Inl e)"
  shows "\<not> is_busy e"
proof -
  have "\<forall>e. r = Inl e \<longrightarrow> \<not> is_busy e" if "times_set w guildId weekday hour minute s = Some r" for r
    by (rule times_set.raw_induct [where P = "\<lambda>_ _ _ _ _ _ r. \<forall>e. r = Inl e \<longrightarrow> \<not> is_busy e", OF _ that])
       (auto split: option.splits if_splits)
  with assms show ?thesis by blast
qed

lemma times_set_contract:
  "busy_retry_contract w (times_set w guildId weekday hour minute)
     (\<lambda>now s. s \<lparr> times_rows := time_set_sql now guildId weekday hour minute (times_rows s) \<rparr>)"
proof (rule retry_shape_contract)
  fix s
  show "times_set w guildId weekday hour minute s =
      (case fault w (executed s) of
         None \<Rightarrow> Some (Inr ((\<lambda>now s. s \<lparr> times_rows := time_set_sql now guildId weekday hour minute (times_rows s) \<rparr>)
                             (clock w (executed s)) (s \<lparr> executed := Suc (executed s) \<rparr>)))
       | Some e \<Rightarrow> if is_busy e
                   then times_set w guildId weekday hour minute (s \<lparr> executed := Suc (executed s), yields := Suc (yields s) \<rparr>)
                   else Some (Inl e))"
    by (subst times_set.simps) (simp split: option.splits)
next
  fix s e
  show "times_set w guildId weekday hour minute s = Some (Inl e) \<Longrightarrow> \<not> is_busy e"
    by (rule times_set_no_busy)
qed

lemma times_delete_no_busy:
  assumes "times_delete w guildId s = Some (Inl e)"
  shows "\<not> is_busy e"
proof -
  have "\<forall>e. r = Inl e \<longrightarrow> \<not> is_busy e" if "times_delete w guildId s = Some r" for r
    by (rule times_delete.raw_induct [where P = "\<lambda>_ _ _ r. \<forall>e. r = Inl e \<longrightarrow> \<not> is_busy e", OF _ that])
       (auto split: option.splits if_splits)
  with assms show ?thesis by blast
qed

lemma times_delete_contract:
  "busy_retry_contract w (times_delete w guildId)
     (\<lambda>now s. s \<lparr> times_rows := filter (\<lambda>r. tm_guild_id r \<noteq> guildId) (times_rows s) \<rparr>)"
proof (rule retry_shape_contract)
  fix s
  show "times_delete w guildId s =
      (case fault w (executed s) of
         None \<Rightarrow> Some (Inr ((\<lambda>now s. s \<lparr> times_rows := filter (\<lambda>r. tm_guild_id r \<noteq> guildId) (times_rows s) \<rparr>)
                             (clock w (executed s)) (s \<lparr> executed := Suc (executed s) \<rparr>)))
       | Some e \<Rightarrow> if is_busy e
                   then times_delete w guildId (s \<lparr> executed := Suc (executed s), yields := Suc (yields s) \<rparr>)
                   else Some (Inl e))"
    by (subst times_delete.simps) (simp split: option.splits)
next
  fix s e
  show "times_delete w guildId s = Some (Inl e) \<Longrightarrow> \<not> is_busy e"
    by (rule times_delete_no_busy)
qed

lemma outdated_eq:
  "outdated guildId days now = (\<lambda>r. guild_id r = guildId \<and> days * 86400000 < now - timestamp r)"
  by (auto simp: outdated_def)

lemma deleteOutdated_clean_attempt:
  "fault w (executed s) = None \<Longrightarrow>
   filter (outdated g d (clock w (executed s))) (reacted_messages s) = []
     \<or> fault w (Suc (executed s)) = None \<Longrightarrow>
   deleteOutdated w g d s = Some (Inr (clean_attempt w g d s))"
  using deleteOutdated_clean [of w s g d] deleteOutdated_nothing_outdated [of w s g d]
  by (cases "filter (outdated g d (clock w (executed s))) (reacted_messages s) = []")
     (auto simp: clean_attempt_def outdated_eq)

lemma deleteOutdated_busy_delete:
  "fault w (executed s) = None \<Longrightarrow>
   filter (outdated g d (clock w (executed s))) (reacted_messages s) \<noteq> [] \<Longrightarrow>
   fault w (Suc (executed s)) = Some e \<Longrightarrow> is_busy e \<Longrightarrow>
   deleteOutdated w g d s =
     Option.bind
       (deleteOutdated w g d (s \<lparr> executed := Suc (Suc (executed s)), yields := Suc (yields s) \<rparr>))
       (\<lambda>r. case r of
               Inl e' \<Rightarrow> Some (Inl e')
             | Inr (ys, s') \<Rightarrow>
                 Some (Inr (Count (length (filter (outdated g d (clock w (executed s)))
                                             (reacted_messages s))) # ys, s')))"
  by (subst deleteOutdated.simps) simp

lemma deleteOutdated_final:
  assumes busy: "\<And>i e. fault w i = Some e \<Longrightarrow> is_busy e"
    and quiet: "\<And>i. N \<le> i \<Longrightarrow> fault w i = None"
  shows "\<exists>j prefix.
           executed s \<le> j \<and> fault w j = None
         \<and> list_all (\<lambda>y. y \<noteq> Deleted) prefix
         \<and> deleteOutdated w g d s =
             Some (Inr (prefix @ fst (clean_attempt w g d
                          (s \<lparr> executed := j,
                               yields := yields s
                                 + length (filter (\<lambda>i. fault w i \<noteq> None) [executed s..<j]) \<rparr>)),
                        snd (clean_attempt w g d
                          (s \<lparr> executed := j,
                               yields := yields s
                                 + length (filter (\<lambda>i. fault w i \<noteq> None) [executed s..<j]) \<rparr>))))"
proof (induction "N - executed s" arbitrary: s rule: less_induct)
  case less
  let ?k = "executed s"
  let ?st = "\<lambda>s j. s \<lparr> executed := j,
                   yields := yields s + length (filter (\<lambda>i. fault w i \<noteq> None) [executed s..<j]) \<rparr>"
  show ?case
  proof (cases "fault w ?k")
    case (Some e)
    then have lt: "?k < N" using quiet [of ?k] by (cases "?k < N") auto
    let ?t = "s \<lparr> executed := Suc ?k, yields := Suc (yields s) \<rparr>"
    have step: "deleteOutdated w g d s = deleteOutdated w g d ?t"
      by (subst deleteOutdated.simps) (simp add: Some busy [OF Some])
    have "N - executed ?t < N - ?k" using lt by simp
    from less [OF this] obtain j prefix where j: "executed ?t \<le> j" "fault w j = None"
      and p: "list_all (\<lambda>y. y \<noteq> Deleted) prefix"
      and r: "deleteOutdated w g d ?t =
             Some (Inr (prefix @ fst (clean_attempt w g d (?st ?t j)), snd (clean_attempt w g d (?st ?t j))))"
      by blast
    from j have kj: "Suc ?k \<le> j" by simp
    then have "[?k..<j] = ?k # [Suc ?k..<j]" by (simp add: upt_conv_Cons)
    then have "?st ?t j = ?st s j" by (simp add: Some)
    with r step j p kj show ?thesis
      by (intro exI [of _ j] exI [of _ prefix]) simp
  next
    case None
    have base: "?st s ?k = s" by simp
    show ?thesis
    proof (cases "filter (outdated g d (clock w ?k)) (reacted_messages s) = []
                  \<or> fault w (Suc ?k) = None")
      case True
      with None have "deleteOutdated w g d s = Some (Inr (clean_attempt w g d s))"
        by (rule deleteOutdated_clean_attempt)
      with None show ?thesis
        by (intro exI [of _ ?k] exI [of _ "[]"]) (simp add: base)
    next
      case False
      then obtain e where e: "fault w (Suc ?k) = Some e"
        and ne: "filter (outdated g d (clock w ?k)) (reacted_messages s) \<noteq> []"
        by auto
      then have lt: "Suc ?k < N" using quiet [of "Suc ?k"] by (cases "Suc ?k < N") auto
      let ?t = "s \<lparr> executed := Suc (Suc ?k), yields := Suc (yields s) \<rparr>"
      let ?c = "Count (length (filter (outdated g d (clock w ?k)) (reacted_messages s)))"
      have "N - executed ?t < N - ?k" using lt by simp
      from less [OF this] obtain j prefix where j: "executed ?t \<le> j" "fault w j = None"
        and p: "list_all (\<lambda>y. y \<noteq> Deleted) prefix"
        and r: "deleteOutdated w g d ?t =
             Some (Inr (prefix @ fst (clean_attempt w g d (?st ?t j)), snd (clean_attempt w g d (?st ?t j))))"
        by blast
      from j have kj: "Suc (Suc ?k) \<le> j" by simp
      then have "[?k..<j] = ?k # Suc ?k # [Suc (Suc ?k)..<j]" by (simp add: upt_conv_Cons)
      then have same: "?st ?t j = ?st s j" by (simp add: None e)
      have "deleteOutdated w g d s =
             Some (Inr (?c # prefix @ fst (clean_attempt w g d (?st ?t j)),
                        snd (clean_attempt w g d (?st ?t j))))"
        using deleteOutdated_busy_delete [OF None ne e busy [OF e]] r
        by (simp add: split_beta)
      with same j p kj show ?thesis
        by (intro exI [of _ j] exI [of _ "?c # prefix"]) simp
    qed
  qed
qed

lemma deleteOutdated_contract: "generator_retry_contract w guildId days"
  unfolding generator_retry_contract_def
proof (intro conjI allI impI)
  fix s :: store and n
  assume "busy_run w (executed s) n"
  then show "deleteOutdated w guildId days s =
         deleteOutdated w guildId days (s \<lparr> executed := executed s + n, yields := yields s + n \<rparr>)"
    by (rule deleteOutdated_skips_busy)
next
  fix s :: store and e
  assume "fault w (executed s) = Some e \<and> \<not> is_busy e"
  then show "deleteOutdated w guildId days s = Some (Inl e)"
    by (simp add: deleteOutdated_count_fails)
next
  fix s :: store and e
  assume "fault w (executed s) = None
        \<and> filter (\<lambda>r. guild_id r = guildId \<and> days * 86400000 < clock w (executed s) - timestamp r)
             (reacted_messages s) \<noteq> []
        \<and> fault w (Suc (executed s)) = Some e \<and> \<not> is_busy e"
  then show "deleteOutdated w guildId days s = Some (Inl e)"
    using deleteOutdated_delete_fails [of w s guildId days e]
    by (simp add: outdated_eq)
next
  fix s :: store and e
  assume "fault w (executed s) = None
        \<and> filter (\<lambda>r. guild_id r = guildId \<and> days * 86400000 < clock w (executed s) - timestamp r)
             (reacted_messages s) \<noteq> []
        \<and> fault w (Suc (executed s)) = Some e \<and> is_busy e"
  then show "deleteOutdated w guildId days s =
              Option.bind
                (deleteOutdated w guildId days
                   (s \<lparr> executed := Suc (Suc (executed s)), yields := Suc (yields s) \<rparr>))
                (\<lambda>r. case r of
                        Inl e' \<Rightarrow> Some (Inl e')
                      | Inr (ys, s') \<Rightarrow>
                          Some (Inr (Count (length (filter
                                       (\<lambda>r. guild_id r = guildId
                                            \<and> days * 86400000 < clock w (executed s) - timestamp r)
                                       (reacted_messages s))) # ys, s')))"
    using deleteOutdated_busy_delete [of w s guildId days e]
    by (simp add: outdated_eq)
next
  fix s :: store
  assume "fault w (executed s) = None
        \<and> (filter (\<lambda>r. guild_id r = guildId \<and> days * 86400000 < clock w (executed s) - timestamp r)
              (reacted_messages s) = []
           \<or> fault w (Suc (executed s)) = None)"
  then show "deleteOutdated w guildId days s = Some (Inr (clean_attempt w guildId days s))"
    using deleteOutdated_clean_attempt [of w s guildId days]
    by (simp add: outdated_eq)
next
  fix s :: store and e
  assume "deleteOutdated w guildId days s = Some (Inl e)"
  then show "\<not> is_busy e" by (rule deleteOutdated_no_busy)
next
  fix s :: store and N
  assume all: "\<forall>i e. fault w i = Some e \<longrightarrow> is_busy e \<and> i < N"
  then have busy: "\<And>i e. fault w i = Some e \<Longrightarrow> is_busy e"
    by blast
  have quiet: "fault w i = None" if "N \<le> i" for i
  proof (cases "fault w i")
    case None
    then show ?thesis .
  next
    case (Some e)
    with all have "i < N" by blast
    with that show ?thesis by simp
  qed
  show "\<exists>j prefix.
           executed s \<le> j \<and> fault w j = None
         \<and> list_all (\<lambda>y. y \<noteq> Deleted) prefix
         \<and> deleteOutdated w guildId days s =
             Some (Inr (prefix @ fst (clean_attempt w guildId days
                          (s \<lparr> executed := j,
                               yields := yields s
                                 + length (filter (\<lambda>i. fault w i \<noteq> None) [executed s..<j]) \<rparr>)),
                        snd (clean_attempt w guildId days
                          (s \<lparr> executed := j,
                               yields := yields s
                                 + length (filter (\<lambda>i. fault w i \<noteq> None) [executed s..<j]) \<rparr>))))"
    using busy quiet by (rule deleteOutdated_final)
qed

section \<open>Upsert\<close>

lemma same_key_row_key: "same_key g c m r = (row_key r = (g, c, m))"
  by (auto simp: same_key_def row_key_def)

lemma filter_key_distinct:
  "distinct (map row_key rows) \<Longrightarrow>
   filter (same_key g c m) rows =
     (case find (same_key g c m) rows of None \<Rightarrow> [] | Some r \<Rightarrow> [r])"
proof (induction rows)
  case Nil
  then show ?case by simp
next
  case (Cons r rows)
  show ?case
  proof (cases "same_key g c m r")
    case True
    then have "row_key r = (g, c, m)" by (simp add: same_key_row_key)
    with Cons.prems have "\<forall>x \<in> set rows. \<not> same_key g c m x"
      by (force simp: same_key_row_key)
    then have "filter (same_key g c m) rows = []" by (simp add: filter_empty_conv)
    with True show ?thesis by simp
  next
    case False
    with Cons show ?thesis by simp
  qed
qed

lemma update_row_key [simp]: "row_key (update_row now msg rc r) = row_key r"
  by (simp add: update_row_def row_key_def)

lemma new_row_key [simp]: "row_key (new_row now msg rc) = (m_guildId msg, m_channelId msg, m_id msg)"
  by (simp add: new_row_def row_key_def)

lemma upsert_sql_others:
  "filter (\<lambda>r. \<not> same_key (m_guildId msg) (m_channelId msg) (m_id msg) r) (upsert_sql now msg rc rows) =
   filter (\<lambda>r. \<not> same_key (m_guildId msg) (m_channelId msg) (m_id msg) r) rows"
proof -
  have "filter (\<lambda>r. \<not> same_key g c m r)
          (map (\<lambda>r. if same_key g c m r then update_row now msg rc r else r) rows)
        = filter (\<lambda>r. \<not> same_key g c m r) rows" for g c m
    by (induction rows) (auto simp: same_key_row_key)
  then show ?thesis
    by (simp add: upsert_sql_def same_key_row_key)
qed

lemma upsert_sql_keys:
  "map row_key (upsert_sql now msg rc rows) =
     (if list_ex (same_key (m_guildId msg) (m_channelId msg) (m_id msg)) rows
      then map row_key rows
      else map row_key rows @ [(m_guildId msg, m_channelId msg, m_id msg)])"
  by (auto simp: upsert_sql_def comp_def intro!: map_cong)

lemma upsert_sql_distinct:
  "distinct (map row_key rows) \<Longrightarrow> distinct (map row_key (upsert_sql now msg rc rows))"
  by (auto simp: upsert_sql_keys list_ex_iff same_key_row_key)

lemma upsert_sql_key_row:
  assumes "distinct (map row_key rows)"
  shows "filter (same_key (m_guildId msg) (m_channelId msg) (m_id msg)) (upsert_sql now msg rc rows) =
     [case find (same_key (m_guildId msg) (m_channelId msg) (m_id msg)) rows of
        None \<Rightarrow> new_row now msg rc
      | Some r \<Rightarrow> update_row now msg rc r]"
proof (cases "list_ex (same_key (m_guildId msg) (m_channelId msg) (m_id msg)) rows")
  case True
  let ?k = "same_key (m_guildId msg) (m_channelId msg) (m_id msg)"
  have "filter ?k (map (\<lambda>r. if ?k r then update_row now msg rc r else r) rows)
        = map (update_row now msg rc) (filter ?k rows)"
    by (induction rows) (auto simp: same_key_row_key)
  moreover from True obtain r where "find ?k rows = Some r"
    by (cases "find ?k rows") (auto simp: find_None_iff list_ex_iff)
  ultimately show ?thesis
    using True filter_key_distinct [OF assms, of "m_guildId msg" "m_channelId msg" "m_id msg"]
    by (simp add: upsert_sql_def)
next
  case False
  let ?k = "same_key (m_guildId msg) (m_channelId msg) (m_id msg)"
  from False have none: "find ?k rows = None" "filter ?k rows = []"
    by (auto simp: find_None_iff list_ex_iff filter_empty_conv)
  have "?k (new_row now msg rc)" by (simp add: same_key_row_key)
  with False none show ?thesis
    by (simp add: upsert_sql_def)
qed

lemma db_set_clean:
  "fault w (executed s) = None \<Longrightarrow>
   db_set w msg rc s =
     Some (Inr (s \<lparr> reacted_messages := upsert_sql (clock w (executed s)) msg rc (reacted_messages s),
                    executed := Suc (executed s) \<rparr>))"
  by (subst db_set.simps) simp

section \<open>The tally\<close>

lemma tally_fold_distinct:
  "distinct (map fst acc) \<Longrightarrow> distinct (map fst (foldl tally_step acc ms))"
  by (induction ms arbitrary: acc) (simp_all add: tally_step_def distinct_update)

lemma tally_step_lookup:
  "map_of (tally_step acc m) c =
     (if snd m = c
      then Some ((case map_of acc c of None \<Rightarrow> [] | Some xs \<Rightarrow> xs) @ [fst m])
      else map_of acc c)"
  by (simp add: tally_step_def update_conv')

lemma group_of_Cons:
  "group_of c (m # ms) = (if snd m = c then fst m # group_of c ms else group_of c ms)"
  by (simp add: group_of_def)

lemma tally_fold_lookup:
  "map_of (foldl tally_step acc ms) c =
     (if c \<in> snd ` set ms
      then Some ((case map_of acc c of None \<Rightarrow> [] | Some xs \<Rightarrow> xs) @ group_of c ms)
      else map_of acc c)"
proof (induction ms arbitrary: acc)
  case Nil
  then show ?case by simp
next
  case (Cons m ms)
  have "map_of (foldl tally_step acc (m # ms)) c = map_of (foldl tally_step (tally_step acc m) ms) c"
    by simp
  also have "\<dots> =
     (if c \<in> snd ` set ms
      then Some ((case map_of (tally_step acc m) c of None \<Rightarrow> [] | Some xs \<Rightarrow> xs) @ group_of c ms)
      else map_of (tally_step acc m) c)"
    by (rule Cons.IH)
  also have "\<dots> =
     (if c \<in> snd ` set (m # ms)
      then Some ((case map_of acc c of None \<Rightarrow> [] | Some xs \<Rightarrow> xs) @ group_of c (m # ms))
      else map_of acc c)"
  proof (cases "snd m = c")
    case True
    have "c \<notin> snd ` set ms \<Longrightarrow> group_of c ms = []"
      by (auto simp: group_of_def filter_empty_conv)
    with True show ?thesis
      by (auto simp: tally_step_lookup group_of_Cons)
  next
    case False
    then show ?thesis
      by (simp add: tally_step_lookup group_of_Cons)
  qed
  finally show ?case .
qed

lemma tallied_distinct: "distinct (map fst (talliedMessages messages))"
  by (simp add: talliedMessages_def tally_fold_distinct)

lemma tallied_lookup:
  "map_of (talliedMessages messages) c =
     (if c \<in> snd ` set messages then Some (group_of c messages) else None)"
  by (simp add: talliedMessages_def tally_fold_lookup)

lemma tallied_keys: "fst ` set (talliedMessages messages) = snd ` set messages"
proof -
  have "dom (map_of (talliedMessages messages)) = snd ` set messages"
    by (auto simp: tallied_lookup dom_def)
  then show ?thesis by (simp add: dom_map_of_conv_image_fst)
qed

lemma Object_entries_set: "set (Object_entries obj) = set obj"
  by (auto simp: Object_entries_def)

lemma distinct_keys_sort_key:
  "distinct (map fst (sort_key f xs)) = distinct (map fst xs)"
  by (simp add: distinct_map)

lemma Object_entries_distinct:
  assumes "distinct (map fst obj)"
  shows "distinct (map fst (Object_entries obj))"
proof -
  have "distinct (map fst (filter (\<lambda>p. is_array_index (fst p)) obj))"
    and "distinct (map fst (filter (\<lambda>p. \<not> is_array_index (fst p)) obj))"
    using assms by (simp_all add: distinct_map_filter)
  then show ?thesis
    by (auto simp: Object_entries_def distinct_keys_sort_key)
qed

lemma sorted_negated_rev: "sorted (map uminus (xs :: int list)) \<Longrightarrow> sorted (rev xs)"
  by (induction xs) (auto simp: sorted_append)

lemma entries_from_lookup:
  "distinct (map fst al) \<Longrightarrow> set xs \<subseteq> set al \<Longrightarrow>
   xs = map (\<lambda>c. (c, the (map_of al c))) (map fst xs)"
  by (induction xs) auto

lemma messagesArray_keys: "map fst (messagesArray messages) = counts_descending messages"
proof -
  let ?L = "messagesArray messages"
  have set_L: "set ?L = set (talliedMessages messages)"
    by (simp add: messagesArray_def Object_entries_set)
  have "distinct (map fst ?L)"
    using Object_entries_distinct [OF tallied_distinct, of messages]
    by (simp add: messagesArray_def distinct_map)
  then have d: "distinct (rev (map fst ?L))" by simp
  have "sorted (map (\<lambda>p. - fst p) ?L)"
    by (simp add: messagesArray_def)
  then have "sorted (map uminus (map fst ?L))" by (simp add: comp_def)
  then have s: "sorted (rev (map fst ?L))" by (rule sorted_negated_rev)
  have "set (rev (map fst ?L)) = set (map snd messages)"
    using tallied_keys [of messages] by (simp add: set_L)
  with s d have "rev (map fst ?L) = sorted_list_of_set (set (map snd messages))"
    by (metis sorted_list_of_set.idem_if_sorted_distinct)
  then have "rev (map fst ?L) = sort (remdups (map snd messages))"
    by (simp only: sorted_list_of_set_sort_remdups)
  then show ?thesis
    by (metis counts_descending_def rev_rev_ident)
qed

lemma messagesArray_groups:
  "messagesArray messages = map (\<lambda>c. (c, group_of c messages)) (counts_descending messages)"
proof -
  let ?L = "messagesArray messages"
  let ?T = "talliedMessages messages"
  have "set ?L \<subseteq> set ?T"
    by (simp add: messagesArray_def Object_entries_set)
  with tallied_distinct have "?L = map (\<lambda>c. (c, the (map_of ?T c))) (map fst ?L)"
    by (rule entries_from_lookup)
  then have "?L = map (\<lambda>c. (c, the (map_of ?T c))) (counts_descending messages)"
    by (simp only: messagesArray_keys)
  moreover have "map (\<lambda>c. (c, the (map_of ?T c))) (counts_descending messages)
      = map (\<lambda>c. (c, group_of c messages)) (counts_descending messages)"
    by (rule map_cong) (auto simp: tallied_lookup counts_descending_def)
  ultimately show ?thesis by simp
qed

lemma display_rank_rankText [simp]: "display_rank (rankText r) = r"
  by (simp add: rankText_def)

lemma contents_loop_length [simp]: "length (contents_loop w r gs) = length gs"
  by (induction w r gs rule: contents_loop.induct) simp_all

lemma contents_loop_rank:
  "i < length gs \<Longrightarrow>
   display_rank (title_rank (contents_loop w r gs ! i)) =
     r + sum_list (map (\<lambda>g. length (snd g)) (take i gs))"
proof (induction w r gs arbitrary: i rule: contents_loop.induct)
  case (1 w rank)
  then show ?case by simp
next
  case (2 w rank count messages rest)
  then show ?case by (cases i) simp_all
qed

lemma contents_loop_blocks:
  "map (\<lambda>b. (title_count b, embeds b)) (contents_loop w r gs) =
   map (\<lambda>g. (fst g, concat (map (\<lambda>msg. messageToEmbeds w msg False) (snd g)))) gs"
  by (induction w r gs rule: contents_loop.induct) simp_all

section \<open>The tick\<close>

lemma tick_no_match:
  "\<not> time_matches now weekday hour minute \<Longrightarrow>
   tick w now guildId guildName channelName weekday hour minute b
   = Some (Inr (schedule 1000 guildId guildName channelName weekday hour minute b))"
  by (auto simp: tick_def time_matches_def)

lemma tick_unresolved:
  "time_matches now weekday hour minute \<Longrightarrow> \<not> resolves_to_text w guildName channelName \<Longrightarrow>
   tick w now guildId guildName channelName weekday hour minute b
   = Some (Inr (schedule 596160000 guildId guildName channelName weekday hour minute b))"
  by (auto simp: tick_def time_matches_def resolves_to_text_def split: option.splits)

lemma tick_resolved:
  "time_matches now weekday hour minute \<Longrightarrow> resolves_to_text w guildName channelName \<Longrightarrow>
   tick w now guildId guildName channelName weekday hour minute b
   = Option.bind (report w guildId b)
       (\<lambda>r. case r of
               Inl e \<Rightarrow> Some (Inl e)
             | Inr b' \<Rightarrow>
                 Some (Inr (schedule 596160000 guildId guildName channelName weekday hour minute b')))"
  by (auto simp: tick_def time_matches_def resolves_to_text_def split: option.splits)






lemma schedule_fields:
  "db (schedule d guildId guildName channelName weekday hour minute b) = db b"
  "sent (schedule d guildId guildName channelName weekday hour minute b) = sent b"
  "instances (schedule d guildId guildName channelName weekday hour minute b)
     = (instances b)(guildId \<mapsto> next_handle b)"
  "timers (schedule d guildId guildName channelName weekday hour minute b)
     = (timers b)(next_handle b \<mapsto>
          \<lparr> t_delay = d, t_guildId = guildId, t_guildName = guildName, t_channelName = channelName,
            t_weekday = weekday, t_hour = hour, t_minute = minute \<rparr>)"
  by (simp_all add: schedule_def)



lemma db_delete_clean:
  "fault w (executed s) = None \<Longrightarrow>
   db_delete w guildId channelId messageId s =
     Some (Inr (s \<lparr> reacted_messages :=
                      filter (\<lambda>r. \<not> same_key guildId channelId messageId r) (reacted_messages s),
                    executed := Suc (executed s) \<rparr>))"
  by (subst db_delete.simps) simp

lemma contents_loop_count:
  "i < length gs \<Longrightarrow> title_count (contents_loop w r gs ! i) = fst (gs ! i)"
proof (induction w r gs arbitrary: i rule: contents_loop.induct)
  case (1 w rank)
  then show ?case by simp
next
  case (2 w rank count messages rest)
  then show ?case by (cases i) simp_all
qed

lemma length_filter_disjoint:
  "(\<And>x. x \<in> set xs \<Longrightarrow> \<not> (P x \<and> Q x)) \<Longrightarrow>
   length (filter P xs) + length (filter Q xs) = length (filter (\<lambda>x. P x \<or> Q x) xs)"
  by (induction xs) auto

lemma group_sizes_sum:
  "distinct cs \<Longrightarrow>
   sum_list (map (\<lambda>c. length (group_of c messages)) cs)
   = length (filter (\<lambda>mr. snd mr \<in> set cs) messages)"
proof (induction cs)
  case Nil
  then show ?case by simp
next
  case (Cons c cs)
  have "length (filter (\<lambda>mr. snd mr = c) messages) + length (filter (\<lambda>mr. snd mr \<in> set cs) messages)
        = length (filter (\<lambda>mr. snd mr = c \<or> snd mr \<in> set cs) messages)"
    using Cons.prems by (intro length_filter_disjoint) auto
  with Cons show ?case by (simp add: group_of_def)
qed

lemma counts_descending_strict: "sorted_wrt (\<lambda>x y. y < x) (counts_descending messages)"
proof -
  have "sorted_wrt (<) (sort (remdups (map snd messages)))"
    by (simp add: strict_sorted_iff)
  then show ?thesis
    by (simp add: counts_descending_def sorted_wrt_rev)
qed

lemma counts_descending_set: "set (counts_descending messages) = snd ` set messages"
  by (simp add: counts_descending_def)

lemma higher_counts_are_before:
  assumes i: "i < length (counts_descending messages)" and x: "x \<in> set (counts_descending messages)"
  shows "x \<in> set (take i (counts_descending messages)) \<longleftrightarrow> counts_descending messages ! i < x"
proof -
  let ?cd = "counts_descending messages"
  have strict: "\<And>a b. a < b \<Longrightarrow> b < length ?cd \<Longrightarrow> ?cd ! b < ?cd ! a"
    using counts_descending_strict [of messages] by (simp add: sorted_wrt_iff_nth_less)
  show ?thesis
  proof
    assume "x \<in> set (take i ?cd)"
    then obtain j where "j < i" "x = ?cd ! j"
      using i by (auto simp: in_set_conv_nth)
    with strict [of j i] i show "?cd ! i < x" by simp
  next
    assume gt: "?cd ! i < x"
    from x obtain j where j: "j < length ?cd" "x = ?cd ! j"
      by (auto simp: in_set_conv_nth)
    have "j < i"
    proof (rule ccontr)
      assume "\<not> j < i"
      then have "i = j \<or> i < j" by auto
      with strict [of i j] j gt show False by auto
    qed
    with j i show "x \<in> set (take i ?cd)"
      by (auto simp: in_set_conv_nth)
  qed
qed

lemma items_in_higher_groups:
  assumes "i < length (counts_descending messages)"
  shows "sum_list (map (\<lambda>c. length (group_of c messages)) (take i (counts_descending messages)))
       = length (filter (\<lambda>mr. counts_descending messages ! i < snd mr) messages)"
proof -
  let ?cd = "counts_descending messages"
  have "distinct (take i ?cd)"
    by (simp add: counts_descending_def)
  then have "sum_list (map (\<lambda>c. length (group_of c messages)) (take i ?cd))
       = length (filter (\<lambda>mr. snd mr \<in> set (take i ?cd)) messages)"
    by (rule group_sizes_sum)
  also have "filter (\<lambda>mr. snd mr \<in> set (take i ?cd)) messages
       = filter (\<lambda>mr. ?cd ! i < snd mr) messages"
  proof (rule filter_cong [OF refl])
    fix mr assume "mr \<in> set messages"
    then have "snd mr \<in> set ?cd" by (simp add: counts_descending_set)
    with assms show "(snd mr \<in> set (take i ?cd)) = (?cd ! i < snd mr)"
      by (rule higher_counts_are_before)
  qed
  finally show ?thesis .
qed

lemma total_reactions_sum: "total_reactions msg = sum_list (m_reactions msg)"
proof -
  have "foldl (+) a xs = a + sum_list xs" for a :: int and xs
    by (induction xs arbitrary: a) simp_all
  then show ?thesis by (simp add: total_reactions_def)
qed

lemma same_key_eq:
  "same_key (m_guildId msg) (m_channelId msg) (m_id msg)
   = (\<lambda>r. guild_id r = m_guildId msg \<and> channel_id r = m_channelId msg \<and> message_id r = m_id msg)"
  by (auto simp: same_key_def)

lemma upsert_sql_holds_total:
  "row_holds_total now msg rows (upsert_sql now msg (sum_list (m_reactions msg)) rows)"
proof (cases "list_ex (same_key (m_guildId msg) (m_channelId msg) (m_id msg)) rows")
  case True
  have others: "filter (\<lambda>r. \<not> same_key (m_guildId msg) (m_channelId msg) (m_id msg) r)
          (upsert_sql now msg (sum_list (m_reactions msg)) rows)
        = filter (\<lambda>r. \<not> same_key (m_guildId msg) (m_channelId msg) (m_id msg) r) rows"
    by (rule upsert_sql_others)
  have kept: "map (\<lambda>r. (guild_id r, channel_id r, message_id r, url r, timestamp r, created_at r))
          (upsert_sql now msg (sum_list (m_reactions msg)) rows)
        = map (\<lambda>r. (guild_id r, channel_id r, message_id r, url r, timestamp r, created_at r)) rows"
    using True by (auto simp: upsert_sql_def update_row_def)
  have ex: "list_ex (same_key (m_guildId msg) (m_channelId msg) (m_id msg))
          (upsert_sql now msg (sum_list (m_reactions msg)) rows)"
  proof -
    from True obtain r where r: "r \<in> set rows" "same_key (m_guildId msg) (m_channelId msg) (m_id msg) r"
      by (auto simp: list_ex_iff)
    then have "update_row now msg (sum_list (m_reactions msg)) r
        \<in> set (upsert_sql now msg (sum_list (m_reactions msg)) rows)"
      using True by (force simp: upsert_sql_def)
    moreover have "same_key (m_guildId msg) (m_channelId msg) (m_id msg)
        (update_row now msg (sum_list (m_reactions msg)) r)"
      using r by (simp add: same_key_row_key)
    ultimately show ?thesis by (auto simp: list_ex_iff)
  qed
  have all: "list_all
          (\<lambda>r. same_key (m_guildId msg) (m_channelId msg) (m_id msg) r \<longrightarrow>
               reactions_count r = sum_list (m_reactions msg)
             \<and> content r = m_content msg
             \<and> guild_name r = (case m_guild_name msg of None \<Rightarrow> [] | Some n \<Rightarrow> n)
             \<and> channel_name r = (case m_channel_name msg of None \<Rightarrow> [] | Some n \<Rightarrow> n)
             \<and> author r = (case m_author_username msg of None \<Rightarrow> [] | Some n \<Rightarrow> n)
             \<and> updated_at r = now - now mod 1000)
          (upsert_sql now msg (sum_list (m_reactions msg)) rows)"
    using True
    by (auto simp: upsert_sql_def update_row_def list_all_iff same_key_def datetime_now_def)
  from True others kept ex all show ?thesis
    unfolding row_holds_total_def same_key_eq by simp
next
  case False
  then have none: "\<forall>r \<in> set rows. \<not> same_key (m_guildId msg) (m_channelId msg) (m_id msg) r"
    by (simp add: list_ex_iff)
  then have f: "filter (\<lambda>r. \<not> same_key (m_guildId msg) (m_channelId msg) (m_id msg) r) rows = rows"
    by (simp add: filter_id_conv)
  have u: "upsert_sql now msg (sum_list (m_reactions msg)) rows
           = rows @ [new_row now msg (sum_list (m_reactions msg))]"
    using False by (simp add: upsert_sql_def)
  have k: "same_key (m_guildId msg) (m_channelId msg) (m_id msg) (new_row now msg c)" for c
    by (simp add: same_key_def new_row_def)
  from False none f k show ?thesis
    unfolding row_holds_total_def same_key_eq [symmetric] u
    by (auto simp: list_all_iff new_row_def datetime_now_def same_key_def)
qed

section \<open>The claims\<close>

text \<open>
  Claim C1. A tick whose time matches, for a guild none of whose rows has a positive
  count, should post the notice whatever rows other guilds have. At the input below the
  only row belongs to another guild and has the count 3: the test
  \<^verbatim>\<open>db.all().some(...)\<close> looks at the rows of every guild, the branch of the tally
  is taken, no row of this guild is collected, and nothing is posted.
\<close>

theorem tick_silent_when_only_other_guilds_have_reactions:
  "\<not> list_ex (\<lambda>r. guild_id r = ''1'' \<and> 0 < reactions_count r)
       (db_all (sample_world (\<lambda>k. None))
          (empty_store \<lparr> reacted_messages := [sample_row ''2'' ''5'' ''6'' 3 86400000000] \<rparr>))
   \<and> time_matches \<lparr> now_day = 1, now_hour = 9, now_minute = 0 \<rparr> 1 9 0
   \<and> resolves_to_text (sample_world (\<lambda>k. None)) ''inugoya'' ''awards''
   \<and> tick (sample_world (\<lambda>k. None)) \<lparr> now_day = 1, now_hour = 9, now_minute = 0 \<rparr>
        ''1'' ''inugoya'' ''awards'' 1 9 0
        (sample_bot (empty_store \<lparr> reacted_messages := [sample_row ''2'' ''5'' ''6'' 3 86400000000] \<rparr>))
     = Some (Inr (schedule 596160000 ''1'' ''inugoya'' ''awards'' 1 9 0
          (sample_bot (empty_store \<lparr> reacted_messages := [sample_row ''2'' ''5'' ''6'' 3 86400000000],
                                      executed := 1 \<rparr>))))
   \<and> sent (schedule 596160000 ''1'' ''inugoya'' ''awards'' 1 9 0
          (sample_bot (empty_store \<lparr> reacted_messages := [sample_row ''2'' ''5'' ''6'' 3 86400000000],
                                      executed := 1 \<rparr>))) = []"
proof -
  let ?w = "sample_world (\<lambda>k. None) :: string world"
  let ?s = "empty_store \<lparr> reacted_messages := [sample_row ''2'' ''5'' ''6'' 3 86400000000] \<rparr>"
  let ?hit = "\<lparr> now_day = 1, now_hour = 9, now_minute = 0 \<rparr>"
  have hit: "time_matches ?hit 1 9 0"
    by (simp add: time_matches_def)
  have res: "resolves_to_text ?w ''inugoya'' ''awards''"
    by (simp add: resolves_to_text_def find_channel_def sample_world_def)
  have none: "\<not> list_ex (\<lambda>r. guild_id r = ''1'' \<and> 0 < reactions_count r) (db_all ?w ?s)"
    by (simp add: db_all_def empty_store_def sample_row_def)
  have "deleteOutdated ?w ''1'' 7 ?s = Some (Inr ([Count 0], ?s \<lparr> executed := Suc (executed ?s) \<rparr>))"
    by (rule deleteOutdated_nothing_outdated)
       (simp_all add: sample_world_def empty_store_def sample_row_def outdated_def)
  then have "report ?w ''1'' (sample_bot ?s)
        = Some (Inr (sample_bot (?s \<lparr> executed := 1 \<rparr>)))"
    by (simp add: report_def sample_bot_def consume_yielded_def db_all_def db_iterate_def
          empty_store_def sample_row_def isRow_def sample_world_def collect_messages_def
          fetchesMessage_def contents_def messagesArray_def
          talliedMessages_def Object_entries_def post_contents_def)
  with hit res have "tick ?w ?hit ''1'' ''inugoya'' ''awards'' 1 9 0 (sample_bot ?s)
     = Some (Inr (schedule 596160000 ''1'' ''inugoya'' ''awards'' 1 9 0 (sample_bot (?s \<lparr> executed := 1 \<rparr>))))"
    by (simp add: tick_resolved)
  with hit res none show ?thesis
    by (simp add: schedule_fields sample_bot_def)
qed

text \<open>
  Claim C2, amended. \<^verbatim>\<open>stopAward\<close> clears the guild's timer when a config record of
  the guild is found and \<^verbatim>\<open>instances\<close> has a handle for it, and leaves every other
  timer alone; without a config record it changes nothing; in both cases
  \<^verbatim>\<open>instances\<close>, the database and what was sent stay as they are.
\<close>

theorem stopAward_cancels_when_config_found:
  "(config_get guildId (db b) \<noteq> None \<and> instances b guildId = Some h \<longrightarrow>
      timers (stopAward guildId b) h = None
      \<and> (\<forall>h'. h' \<noteq> h \<longrightarrow> timers (stopAward guildId b) h' = timers b h'))
   \<and> (config_get guildId (db b) = None \<longrightarrow> stopAward guildId b = b)
   \<and> instances (stopAward guildId b) = instances b
   \<and> db (stopAward guildId b) = db b
   \<and> sent (stopAward guildId b) = sent b"
  by (auto simp: stopAward_def split: option.splits)

theorem stopAward_registered_guild:
  "timers (stopAward ''1''
      ((sample_bot (empty_store \<lparr> post_target := [sample_config] \<rparr>))
         \<lparr> instances := (\<lambda>g. None)(''1'' \<mapsto> 0), timers := (\<lambda>h. None)(0 \<mapsto> sample_timer),
           next_handle := 1 \<rparr>)) 0 = None
   \<and> instances (stopAward ''1''
      ((sample_bot (empty_store \<lparr> post_target := [sample_config] \<rparr>))
         \<lparr> instances := (\<lambda>g. None)(''1'' \<mapsto> 0), timers := (\<lambda>h. None)(0 \<mapsto> sample_timer),
           next_handle := 1 \<rparr>)) ''1'' = Some 0"
  using stopAward_cancels_when_config_found
    [of "''1''"
        "(sample_bot (empty_store \<lparr> post_target := [sample_config] \<rparr>))
           \<lparr> instances := (\<lambda>g. None)(''1'' \<mapsto> 0), timers := (\<lambda>h. None)(0 \<mapsto> sample_timer),
             next_handle := 1 \<rparr>" 0]
  by (simp add: config_get_def sample_bot_def empty_store_def sample_config_def)

text \<open>
  The claim as written asks that the timer be cleared and the entry of \<^verbatim>\<open>instances\<close>
  be gone afterwards, with or without a config record. Without a config record the timer
  stays pending; with one, the entry is still there.
\<close>

theorem stopAward_keeps_handle:
  "instances ((sample_bot empty_store)
       \<lparr> instances := (\<lambda>g. None)(''1'' \<mapsto> 0), timers := (\<lambda>h. None)(0 \<mapsto> sample_timer),
         next_handle := 1 \<rparr>) ''1'' = Some 0
   \<and> timers (stopAward ''1''
      ((sample_bot empty_store)
         \<lparr> instances := (\<lambda>g. None)(''1'' \<mapsto> 0), timers := (\<lambda>h. None)(0 \<mapsto> sample_timer),
           next_handle := 1 \<rparr>)) 0 = Some sample_timer
   \<and> instances (stopAward ''1''
      ((sample_bot empty_store)
         \<lparr> instances := (\<lambda>g. None)(''1'' \<mapsto> 0), timers := (\<lambda>h. None)(0 \<mapsto> sample_timer),
           next_handle := 1 \<rparr>)) ''1'' = Some 0
   \<and> instances (stopAward ''1''
      ((sample_bot (empty_store \<lparr> post_target := [sample_config] \<rparr>))
         \<lparr> instances := (\<lambda>g. None)(''1'' \<mapsto> 0), timers := (\<lambda>h. None)(0 \<mapsto> sample_timer),
           next_handle := 1 \<rparr>)) ''1'' = Some 0"
  by (simp add: stopAward_def config_get_def sample_bot_def empty_store_def sample_config_def)

text \<open>
  Claim C3. The block at position \<open>i\<close> of the report is the block of the \<open>i\<close>-th
  highest distinct reaction count, and its display rank is 1 plus the number of messages
  in the groups of the higher counts, which is 1 plus the number of messages with a
  higher count. So the block of the highest count has rank 1. For the groups
  5: a, b; 3: c; 1: d the ranks are 1, 3 and 4.
\<close>

theorem rank_is_one_plus_higher_items:
  assumes "i < length (contents w messages)"
  shows "title_count (contents w messages ! i) = counts_descending messages ! i
       \<and> display_rank (title_rank (contents w messages ! i))
         = 1 + sum_list (map (\<lambda>c. length (group_of c messages)) (take i (counts_descending messages)))
       \<and> display_rank (title_rank (contents w messages ! i))
         = 1 + length (filter (\<lambda>mr. counts_descending messages ! i < snd mr) messages)"
proof -
  let ?cd = "counts_descending messages"
  let ?gs = "map (\<lambda>c. (c, group_of c messages)) ?cd"
  from assms have i3: "i < 3" and icd: "i < length ?cd" and len: "i < length (take 3 ?gs)"
    by (simp_all add: contents_def messagesArray_groups)
  have c: "contents w messages = contents_loop w 1 (take 3 ?gs)"
    by (simp add: contents_def messagesArray_groups)
  have "title_count (contents w messages ! i) = fst (take 3 ?gs ! i)"
    unfolding c using len by (rule contents_loop_count)
  then have count: "title_count (contents w messages ! i) = ?cd ! i"
    using i3 icd by simp
  have "display_rank (title_rank (contents w messages ! i))
        = 1 + sum_list (map (\<lambda>g. length (snd g)) (take i (take 3 ?gs)))"
    unfolding c using len by (rule contents_loop_rank)
  also have "take i (take 3 ?gs) = map (\<lambda>c. (c, group_of c messages)) (take i ?cd)"
    using i3 by (simp add: min_absorb1 take_map)
  finally have rank: "display_rank (title_rank (contents w messages ! i))
        = 1 + sum_list (map (\<lambda>c. length (group_of c messages)) (take i ?cd))"
    by (simp add: comp_def)
  from count rank items_in_higher_groups [OF icd] show ?thesis by simp
qed

theorem rank_one_three_four:
  "length (contents (sample_world (\<lambda>k. None))
         [(sample_message ''1'' ''2'' ''a'' 0, 5), (sample_message ''1'' ''2'' ''c'' 0, 3),
          (sample_message ''1'' ''2'' ''b'' 0, 5), (sample_message ''1'' ''2'' ''d'' 0, 1)]) = 3
   \<and> map (\<lambda>i. (title_count
                  (contents (sample_world (\<lambda>k. None))
                     [(sample_message ''1'' ''2'' ''a'' 0, 5), (sample_message ''1'' ''2'' ''c'' 0, 3),
                      (sample_message ''1'' ''2'' ''b'' 0, 5), (sample_message ''1'' ''2'' ''d'' 0, 1)] ! i),
                display_rank (title_rank
                  (contents (sample_world (\<lambda>k. None))
                     [(sample_message ''1'' ''2'' ''a'' 0, 5), (sample_message ''1'' ''2'' ''c'' 0, 3),
                      (sample_message ''1'' ''2'' ''b'' 0, 5), (sample_message ''1'' ''2'' ''d'' 0, 1)] ! i))))
       [0, 1, 2]
     = [(5, 1), (3, 3), (1, 4)]"
proof -
  let ?w = "sample_world (\<lambda>k. None) :: string world"
  let ?ms = "[(sample_message ''1'' ''2'' ''a'' 0, 5), (sample_message ''1'' ''2'' ''c'' 0, 3),
          (sample_message ''1'' ''2'' ''b'' 0, 5), (sample_message ''1'' ''2'' ''d'' 0, 1)]"
  have len: "length (contents ?w ?ms) = 3"
    by (simp add: contents_def messagesArray_groups counts_descending_def)
  have cd: "counts_descending ?ms = [5, 3, 1]"
    by (simp add: counts_descending_def)
  have "0 < length (contents ?w ?ms)" "1 < length (contents ?w ?ms)" "2 < length (contents ?w ?ms)"
    by (simp_all add: len)
  then have "title_count (contents ?w ?ms ! 0) = 5 \<and> display_rank (title_rank (contents ?w ?ms ! 0)) = 1"
    and "title_count (contents ?w ?ms ! 1) = 3 \<and> display_rank (title_rank (contents ?w ?ms ! 1)) = 3"
    and "title_count (contents ?w ?ms ! 2) = 1 \<and> display_rank (title_rank (contents ?w ?ms ! 2)) = 4"
    using rank_is_one_plus_higher_items [of 0 ?w ?ms]
          rank_is_one_plus_higher_items [of 1 ?w ?ms]
          rank_is_one_plus_higher_items [of 2 ?w ?ms]
    by (simp_all add: cd)
  with len show ?thesis by simp
qed

text \<open>
  Claim C4. The content blocks are exactly the first three distinct reaction counts in
  descending order (all of them when there are fewer than three), and the block of a
  count holds the embeds of exactly the messages with that count, in the order given.
  A count beyond the third gives no block.
\<close>

theorem top_three_groups:
  "map (\<lambda>b. (title_count b, embeds b)) (contents w messages) =
   map (\<lambda>c. (c, concat (map (\<lambda>msg. messageToEmbeds w msg False) (group_of c messages))))
     (take 3 (counts_descending messages))"
  by (simp add: contents_def contents_loop_blocks messagesArray_groups take_map comp_def)

theorem five_counts_three_blocks:
  "map title_count
     (contents (sample_world (\<lambda>k. None))
        [(sample_message ''1'' ''2'' ''a'' 0, 2), (sample_message ''1'' ''2'' ''b'' 0, 9),
         (sample_message ''1'' ''2'' ''c'' 0, 5), (sample_message ''1'' ''2'' ''d'' 0, 1),
         (sample_message ''1'' ''2'' ''e'' 0, 7), (sample_message ''1'' ''2'' ''f'' 0, 9)])
   = [9, 7, 5]
   \<and> map embeds
     (contents (sample_world (\<lambda>k. None))
        [(sample_message ''1'' ''2'' ''a'' 0, 2), (sample_message ''1'' ''2'' ''b'' 0, 9),
         (sample_message ''1'' ''2'' ''c'' 0, 5), (sample_message ''1'' ''2'' ''d'' 0, 1),
         (sample_message ''1'' ''2'' ''e'' 0, 7), (sample_message ''1'' ''2'' ''f'' 0, 9)])
   = [[''b'', ''f''], [''e''], [''c'']]"
proof -
  let ?w = "sample_world (\<lambda>k. None) :: string world"
  let ?ms = "[(sample_message ''1'' ''2'' ''a'' 0, 2), (sample_message ''1'' ''2'' ''b'' 0, 9),
         (sample_message ''1'' ''2'' ''c'' 0, 5), (sample_message ''1'' ''2'' ''d'' 0, 1),
         (sample_message ''1'' ''2'' ''e'' 0, 7), (sample_message ''1'' ''2'' ''f'' 0, 9)]"
  have "map (\<lambda>b. (title_count b, embeds b)) (contents ?w ?ms)
        = [(9, [''b'', ''f'']), (7, [''e'']), (5, [''c''])]"
    using top_three_groups [of ?w ?ms]
    by (simp add: counts_descending_def group_of_def sample_world_def sample_message_def)
  then have "map fst (map (\<lambda>b. (title_count b, embeds b)) (contents ?w ?ms)) = [9, 7, 5]"
    and "map snd (map (\<lambda>b. (title_count b, embeds b)) (contents ?w ?ms))
         = [[''b'', ''f''], [''e''], [''c'']]"
    by simp_all
  then show ?thesis by (simp add: comp_def)
qed

text \<open>
  Claim C5. On a table that honours its primary key, two calls of \<^verbatim>\<open>set\<close> for the
  same key (guild, channel, message) that both run their statement leave exactly one row
  with that key. Its reaction count is the second value, its \<^verbatim>\<open>created_at\<close> and
  \<^verbatim>\<open>timestamp\<close> are those the row had after the first call (the instant of the
  first statement and the message's creation time when the key was new), its
  \<^verbatim>\<open>updated_at\<close> is the instant of the second statement, and the rows with other
  keys are unchanged.
\<close>

theorem upsert_twice_keeps_one_row:
  assumes pk: "distinct (map row_key (reacted_messages s))"
    and clean: "fault w (executed s) = None" "fault w (Suc (executed s)) = None"
    and key: "m_guildId m2 = m_guildId m1" "m_channelId m2 = m_channelId m1" "m_id m2 = m_id m1"
  shows "\<exists>s1 s2 r1 r2.
           db_set w m1 rc1 s = Some (Inr s1) \<and> db_set w m2 rc2 s1 = Some (Inr s2)
         \<and> filter (same_key (m_guildId m1) (m_channelId m1) (m_id m1)) (reacted_messages s1) = [r1]
         \<and> filter (same_key (m_guildId m1) (m_channelId m1) (m_id m1)) (reacted_messages s2) = [r2]
         \<and> reactions_count r2 = rc2
         \<and> created_at r2 = created_at r1
         \<and> timestamp r2 = timestamp r1
         \<and> updated_at r2 = datetime_now (clock w (Suc (executed s)))
         \<and> (\<not> list_ex (same_key (m_guildId m1) (m_channelId m1) (m_id m1)) (reacted_messages s)
              \<longrightarrow> created_at r1 = datetime_now (clock w (executed s))
                \<and> timestamp r1 = m_createdTimestamp m1)
         \<and> filter (\<lambda>r. \<not> same_key (m_guildId m1) (m_channelId m1) (m_id m1) r) (reacted_messages s2)
             = filter (\<lambda>r. \<not> same_key (m_guildId m1) (m_channelId m1) (m_id m1) r) (reacted_messages s)"
proof -
  let ?k = "same_key (m_guildId m1) (m_channelId m1) (m_id m1)"
  let ?rows1 = "upsert_sql (clock w (executed s)) m1 rc1 (reacted_messages s)"
  let ?s1 = "s \<lparr> reacted_messages := ?rows1, executed := Suc (executed s) \<rparr>"
  let ?rows2 = "upsert_sql (clock w (Suc (executed s))) m2 rc2 ?rows1"
  let ?s2 = "?s1 \<lparr> reacted_messages := ?rows2, executed := Suc (Suc (executed s)) \<rparr>"
  let ?r1 = "case find ?k (reacted_messages s) of
               None \<Rightarrow> new_row (clock w (executed s)) m1 rc1
             | Some r \<Rightarrow> update_row (clock w (executed s)) m1 rc1 r"
  let ?r2 = "update_row (clock w (Suc (executed s))) m2 rc2 ?r1"
  have step1: "db_set w m1 rc1 s = Some (Inr ?s1)"
    using clean(1) by (rule db_set_clean)
  have step2: "db_set w m2 rc2 ?s1 = Some (Inr ?s2)"
    using clean(2) by (simp add: db_set_clean)
  have pk1: "distinct (map row_key ?rows1)"
    using pk by (rule upsert_sql_distinct)
  have f1: "filter ?k ?rows1 = [?r1]"
    using pk by (rule upsert_sql_key_row)
  then have found: "find ?k ?rows1 = Some ?r1"
    using filter_key_distinct [OF pk1, of "m_guildId m1" "m_channelId m1" "m_id m1"]
    by (cases "find ?k ?rows1") auto
  have f2: "filter ?k ?rows2 = [?r2]"
    using upsert_sql_key_row [OF pk1, of m2 "clock w (Suc (executed s))" rc2] found
    by (simp add: key)
  have others: "filter (\<lambda>r. \<not> ?k r) ?rows2 = filter (\<lambda>r. \<not> ?k r) (reacted_messages s)"
    using upsert_sql_others [of m2 "clock w (Suc (executed s))" rc2 ?rows1]
          upsert_sql_others [of m1 "clock w (executed s)" rc1 "reacted_messages s"]
    by (simp add: key)
  have fresh: "created_at ?r1 = datetime_now (clock w (executed s)) \<and> timestamp ?r1 = m_createdTimestamp m1"
    if "\<not> list_ex ?k (reacted_messages s)"
  proof -
    from that have "find ?k (reacted_messages s) = None"
      by (simp add: find_None_iff list_ex_iff)
    then show ?thesis by (simp add: new_row_def)
  qed
  have fields: "reactions_count ?r2 = rc2" "created_at ?r2 = created_at ?r1"
    "timestamp ?r2 = timestamp ?r1" "updated_at ?r2 = datetime_now (clock w (Suc (executed s)))"
    by (simp_all add: update_row_def)
  show ?thesis
    apply (rule exI [of _ ?s1], rule exI [of _ ?s2], rule exI [of _ ?r1], rule exI [of _ ?r2])
    using step1 step2 f1 f2 others fresh fields by simp
qed

theorem upsert_twice_on_empty_table:
  "\<exists>s1 s2.
     db_set (sample_world (\<lambda>k. None)) (sample_message ''1'' ''2'' ''3'' 5000) 2 empty_store = Some (Inr s1)
   \<and> db_set (sample_world (\<lambda>k. None)) (sample_message ''1'' ''2'' ''3'' 5000) 5 s1 = Some (Inr s2)
   \<and> length (filter (same_key ''1'' ''2'' ''3'') (reacted_messages s2)) = 1
   \<and> list_all (\<lambda>r. reactions_count r = 5 \<and> created_at r = 86400000000 \<and> timestamp r = 5000
                     \<and> updated_at r = 86400001000)
        (filter (same_key ''1'' ''2'' ''3'') (reacted_messages s2))"
proof -
  let ?w = "sample_world (\<lambda>k. None)"
  let ?m = "sample_message ''1'' ''2'' ''3'' 5000"
  let ?k = "same_key (m_guildId ?m) (m_channelId ?m) (m_id ?m)"
  have h1: "distinct (map row_key (reacted_messages empty_store))"
    by (simp add: empty_store_def)
  have h2: "fault ?w (executed empty_store) = None" "fault ?w (Suc (executed empty_store)) = None"
    by (simp_all add: sample_world_def)
  from upsert_twice_keeps_one_row [of empty_store ?w ?m ?m 2 5, OF h1 h2 refl refl refl]
  obtain s1 s2 and r1 r2 :: row where
    run: "db_set ?w ?m 2 empty_store = Some (Inr s1)" "db_set ?w ?m 5 s1 = Some (Inr s2)"
    and one: "filter ?k (reacted_messages s2) = [r2]"
    and fields: "reactions_count r2 = 5" "created_at r2 = created_at r1" "timestamp r2 = timestamp r1"
      "updated_at r2 = datetime_now (clock ?w (Suc (executed empty_store)))"
    and fresh: "\<not> list_ex ?k (reacted_messages empty_store) \<longrightarrow>
       created_at r1 = datetime_now (clock ?w (executed empty_store))
       \<and> timestamp r1 = m_createdTimestamp ?m"
    by blast
  have key: "?k = same_key ''1'' ''2'' ''3''"
    by (simp add: sample_message_def)
  have "created_at r1 = 86400000000" "timestamp r1 = 5000"
    using fresh by (simp_all add: empty_store_def sample_world_def sample_message_def datetime_now_def)
  moreover have "updated_at r2 = 86400001000"
    using fields(4) by (simp add: empty_store_def sample_world_def datetime_now_def)
  ultimately show ?thesis
    using run one fields(1-3) unfolding key
    by (intro exI [of _ s1] exI [of _ s2]) simp
qed

text \<open>
  Claim C6, amended. A call of \<^verbatim>\<open>deleteOutdated\<close> whose statements run without an
  error first yields the number of the guild's rows whose age, measured from
  \<^verbatim>\<open>timestamp\<close>, exceeds \<open>days\<close> days at the instant of the count statement. Only
  when that number is positive does it run the delete statement and yield the
  completion value. The delete statement reads the clock again: it removes the guild's
  rows whose age exceeds \<open>days\<close> days at its own, later instant. These are the counted
  rows when the clock does not run backwards, together with any row of the guild that
  passed the limit in between; they are exactly the counted rows when no row did. With
  rows aged 5, 8 and 10 days and a window of 7 days the count is 2 and the 5-day row
  remains.
\<close>

theorem deleteOutdated_counts_then_deletes:
  assumes "fault w (executed s) = None" and "fault w (Suc (executed s)) = None"
  shows "deleteOutdated w guildId days s = Some (Inr
     (if filter (\<lambda>r. guild_id r = guildId \<and> days * 86400000 < clock w (executed s) - timestamp r)
           (reacted_messages s) = []
      then ([Count 0], s \<lparr> executed := Suc (executed s) \<rparr>)
      else ([Count (length (filter
                      (\<lambda>r. guild_id r = guildId \<and> days * 86400000 < clock w (executed s) - timestamp r)
                      (reacted_messages s))),
             Deleted],
            s \<lparr> reacted_messages :=
                  filter (\<lambda>r. \<not> (guild_id r = guildId
                                   \<and> days * 86400000 < clock w (Suc (executed s)) - timestamp r))
                    (reacted_messages s),
                executed := Suc (Suc (executed s)) \<rparr>)))
   \<and> (clock w (executed s) \<le> clock w (Suc (executed s)) \<longrightarrow>
        (\<forall>r \<in> set (reacted_messages s).
            guild_id r = guildId \<and> days * 86400000 < clock w (executed s) - timestamp r \<longrightarrow>
            guild_id r = guildId \<and> days * 86400000 < clock w (Suc (executed s)) - timestamp r))
   \<and> ((\<forall>r \<in> set (reacted_messages s).
          guild_id r = guildId \<longrightarrow>
          (days * 86400000 < clock w (Suc (executed s)) - timestamp r)
          = (days * 86400000 < clock w (executed s) - timestamp r)) \<longrightarrow>
        filter (\<lambda>r. \<not> (guild_id r = guildId
                         \<and> days * 86400000 < clock w (Suc (executed s)) - timestamp r))
          (reacted_messages s)
        = filter (\<lambda>r. \<not> (guild_id r = guildId
                           \<and> days * 86400000 < clock w (executed s) - timestamp r))
            (reacted_messages s))"
proof (intro conjI impI)
  have o: "outdated guildId days now = (\<lambda>r. guild_id r = guildId \<and> days * 86400000 < now - timestamp r)"
    for now
    by (auto simp: outdated_def)
  show "deleteOutdated w guildId days s = Some (Inr
     (if filter (\<lambda>r. guild_id r = guildId \<and> days * 86400000 < clock w (executed s) - timestamp r)
           (reacted_messages s) = []
      then ([Count 0], s \<lparr> executed := Suc (executed s) \<rparr>)
      else ([Count (length (filter
                      (\<lambda>r. guild_id r = guildId \<and> days * 86400000 < clock w (executed s) - timestamp r)
                      (reacted_messages s))),
             Deleted],
            s \<lparr> reacted_messages :=
                  filter (\<lambda>r. \<not> (guild_id r = guildId
                                   \<and> days * 86400000 < clock w (Suc (executed s)) - timestamp r))
                    (reacted_messages s),
                executed := Suc (Suc (executed s)) \<rparr>)))"
  proof (cases "filter (outdated guildId days (clock w (executed s))) (reacted_messages s) = []")
    case True
    with assms(1) deleteOutdated_nothing_outdated [of w s guildId days] show ?thesis
      by (simp add: o)
  next
    case False
    with assms deleteOutdated_clean [of w s guildId days] show ?thesis
      by (simp add: o)
  qed
next
  assume "clock w (executed s) \<le> clock w (Suc (executed s))"
  then show "\<forall>r \<in> set (reacted_messages s).
            guild_id r = guildId \<and> days * 86400000 < clock w (executed s) - timestamp r \<longrightarrow>
            guild_id r = guildId \<and> days * 86400000 < clock w (Suc (executed s)) - timestamp r"
    by auto
next
  assume "\<forall>r \<in> set (reacted_messages s).
          guild_id r = guildId \<longrightarrow>
          (days * 86400000 < clock w (Suc (executed s)) - timestamp r)
          = (days * 86400000 < clock w (executed s) - timestamp r)"
  then show "filter (\<lambda>r. \<not> (guild_id r = guildId
                         \<and> days * 86400000 < clock w (Suc (executed s)) - timestamp r))
          (reacted_messages s)
        = filter (\<lambda>r. \<not> (guild_id r = guildId
                           \<and> days * 86400000 < clock w (executed s) - timestamp r))
            (reacted_messages s)"
    by (intro filter_cong) auto
qed

theorem deleteOutdated_five_eight_ten_days:
  "deleteOutdated (sample_world (\<lambda>k. None)) ''1'' 7
     (empty_store \<lparr> reacted_messages :=
        [(sample_row ''1'' ''2'' ''five'' 1 85968000000) \<lparr> created_at := 83808000000 \<rparr>,
         (sample_row ''1'' ''2'' ''eight'' 1 85708800000) \<lparr> created_at := 86313600000 \<rparr>,
         sample_row ''2'' ''2'' ''other'' 1 84672000000,
         sample_row ''1'' ''2'' ''ten'' 1 85536000000] \<rparr>)
   = Some (Inr ([Count 2, Deleted],
        empty_store \<lparr> reacted_messages :=
                        [(sample_row ''1'' ''2'' ''five'' 1 85968000000) \<lparr> created_at := 83808000000 \<rparr>,
                         sample_row ''2'' ''2'' ''other'' 1 84672000000],
                      executed := 2 \<rparr>))"
  using deleteOutdated_counts_then_deletes
    [of "sample_world (\<lambda>k. None)"
        "empty_store \<lparr> reacted_messages :=
          [(sample_row ''1'' ''2'' ''five'' 1 85968000000) \<lparr> created_at := 83808000000 \<rparr>,
           (sample_row ''1'' ''2'' ''eight'' 1 85708800000) \<lparr> created_at := 86313600000 \<rparr>,
           sample_row ''2'' ''2'' ''other'' 1 84672000000,
           sample_row ''1'' ''2'' ''ten'' 1 85536000000] \<rparr>"
        "''1''" 7]
  by (simp add: sample_world_def empty_store_def sample_row_def)

text \<open>
  The claim as written has the delete remove exactly the rows that were counted. With
  two rows of the guild, one a millisecond over seven days old and one half a second
  under, and a clock that advances by a second between the two statements, the count
  is 1 and both rows are removed.
\<close>

theorem deleteOutdated_deletes_more_than_counted:
  "length (filter (\<lambda>r. guild_id r = ''1'' \<and> 7 * 86400000 < clock (sample_world (\<lambda>k. None)) 0 - timestamp r)
             [sample_row ''1'' ''2'' ''a'' 1 85795199999, sample_row ''1'' ''2'' ''b'' 1 85795200500]) = 1
   \<and> deleteOutdated (sample_world (\<lambda>k. None)) ''1'' 7
       (empty_store \<lparr> reacted_messages :=
          [sample_row ''1'' ''2'' ''a'' 1 85795199999, sample_row ''1'' ''2'' ''b'' 1 85795200500] \<rparr>)
     = Some (Inr ([Count 1, Deleted], empty_store \<lparr> reacted_messages := [], executed := 2 \<rparr>))"
proof -
  let ?w = "sample_world (\<lambda>k. None) :: string world"
  let ?s = "empty_store \<lparr> reacted_messages :=
          [sample_row ''1'' ''2'' ''a'' 1 85795199999, sample_row ''1'' ''2'' ''b'' 1 85795200500] \<rparr>"
  have "deleteOutdated ?w ''1'' 7 ?s
     = Some (Inr ([Count (length (filter (outdated ''1'' 7 (clock ?w (executed ?s))) (reacted_messages ?s))),
                   Deleted],
                ?s \<lparr> reacted_messages :=
                      filter (\<lambda>r. \<not> outdated ''1'' 7 (clock ?w (Suc (executed ?s))) r) (reacted_messages ?s),
                    executed := Suc (Suc (executed ?s)) \<rparr>))"
    by (rule deleteOutdated_clean)
       (simp_all add: sample_world_def empty_store_def sample_row_def outdated_def)
  then show ?thesis
    by (simp add: sample_world_def empty_store_def sample_row_def outdated_def)
qed

text \<open>
  Claim C7. Each of the seven mutating methods (\<^verbatim>\<open>set\<close>, \<^verbatim>\<open>delete\<close>,
  \<^verbatim>\<open>deleteOutdated\<close>, \<^verbatim>\<open>register\<close>, \<^verbatim>\<open>unregister\<close>, and \<^verbatim>\<open>set\<close> and
  \<^verbatim>\<open>delete\<close> of the times) retries a busy failure after one yield, any number of
  times, never raises the busy error to its caller, and raises every other error
  unchanged. For \<^verbatim>\<open>deleteOutdated\<close> this holds of the count statement and of the
  delete statement: after a busy delete no row is gone, and the retry counts and
  deletes again.
\<close>

theorem busy_is_retried_other_errors_propagate:
  "busy_retry_contract w (db_set w msg reactionsCount)
     (\<lambda>now s. s \<lparr> reacted_messages := upsert_sql now msg reactionsCount (reacted_messages s) \<rparr>)
   \<and> busy_retry_contract w (db_delete w guildId channelId messageId)
     (\<lambda>now s. s \<lparr> reacted_messages :=
                    filter (\<lambda>r. \<not> same_key guildId channelId messageId r) (reacted_messages s) \<rparr>)
   \<and> generator_retry_contract w guildId days
   \<and> busy_retry_contract w (config_register w guildId guildName channelId channelName)
     (\<lambda>now s. s \<lparr> post_target :=
                    register_sql now guildId guildName channelId channelName (post_target s) \<rparr>)
   \<and> busy_retry_contract w (config_unregister w guildId)
     (\<lambda>now s. s \<lparr> post_target := filter (\<lambda>r. cfg_guild_id r \<noteq> guildId) (post_target s) \<rparr>)
   \<and> busy_retry_contract w (times_set w guildId weekday hour minute)
     (\<lambda>now s. s \<lparr> times_rows := time_set_sql now guildId weekday hour minute (times_rows s) \<rparr>)
   \<and> busy_retry_contract w (times_delete w guildId)
     (\<lambda>now s. s \<lparr> times_rows := filter (\<lambda>r. tm_guild_id r \<noteq> guildId) (times_rows s) \<rparr>)"
  by (intro conjI db_set_contract db_delete_contract deleteOutdated_contract
        config_register_contract config_unregister_contract times_set_contract times_delete_contract)

theorem two_busy_failures_then_success:
  "db_set (sample_world (\<lambda>k. if k < 2 then Some busy_error else None))
      (sample_message ''1'' ''2'' ''3'' 5000) 4 empty_store
   = Some (Inr (empty_store
        \<lparr> reacted_messages := [new_row 86400002000 (sample_message ''1'' ''2'' ''3'' 5000) 4],
          executed := 3, yields := 2 \<rparr>))
   \<and> db_delete (sample_world (\<lambda>k. if k < 1 then Some busy_error else Some (SqliteError ''disk I/O error'')))
      ''1'' ''2'' ''3'' empty_store
   = Some (Inl (SqliteError ''disk I/O error''))
   \<and> deleteOutdated (sample_world (\<lambda>k. if k = 1 then Some busy_error else None)) ''1'' 7
     (empty_store \<lparr> reacted_messages :=
        [sample_row ''1'' ''2'' ''eight'' 1 85708800000, sample_row ''2'' ''2'' ''other'' 1 85708800000] \<rparr>)
   = Some (Inr ([Count 1, Count 1, Deleted],
        empty_store \<lparr> reacted_messages := [sample_row ''2'' ''2'' ''other'' 1 85708800000],
                      executed := 4, yields := 1 \<rparr>))"
proof -
  have sets: "db_set (sample_world (\<lambda>k. if k < 2 then Some busy_error else None))
      (sample_message ''1'' ''2'' ''3'' 5000) 4 empty_store
   = Some (Inr (empty_store
        \<lparr> reacted_messages := [new_row 86400002000 (sample_message ''1'' ''2'' ''3'' 5000) 4],
          executed := 3, yields := 2 \<rparr>))
   \<and> db_delete (sample_world (\<lambda>k. if k < 1 then Some busy_error else Some (SqliteError ''disk I/O error'')))
      ''1'' ''2'' ''3'' empty_store
   = Some (Inl (SqliteError ''disk I/O error''))"
  proof -
    let ?w = "sample_world (\<lambda>k. if k < 2 then Some busy_error else None)"
    let ?v = "sample_world (\<lambda>k. if k < 1 then Some busy_error else Some (SqliteError ''disk I/O error''))"
    let ?m = "sample_message ''1'' ''2'' ''3'' 5000"
    have busy: "is_busy busy_error"
      by (simp add: is_busy_def busy_error_def)
    have other: "\<not> is_busy (SqliteError ''disk I/O error'')"
      by (simp add: is_busy_def)
    from busy_is_retried_other_errors_propagate [of ?w ?m 4]
    have "busy_retry_contract ?w (db_set ?w ?m 4)
       (\<lambda>now s. s \<lparr> reacted_messages := upsert_sql now ?m 4 (reacted_messages s) \<rparr>)"
      by blast
    then have "busy_run ?w (executed empty_store) 2 \<longrightarrow>
           (case fault ?w (executed empty_store + 2) of
              None \<Rightarrow>
                db_set ?w ?m 4 empty_store
                = Some (Inr ((\<lambda>now s. s \<lparr> reacted_messages := upsert_sql now ?m 4 (reacted_messages s) \<rparr>)
                              (clock ?w (executed empty_store + 2))
                              (empty_store \<lparr> yields := yields empty_store + 2,
                                             executed := Suc (executed empty_store + 2) \<rparr>)))
            | Some e \<Rightarrow> is_busy e \<or> db_set ?w ?m 4 empty_store = Some (Inl e))"
      unfolding busy_retry_contract_def by blast
    then have first: "db_set ?w ?m 4 empty_store
     = Some (Inr (empty_store
          \<lparr> reacted_messages := [new_row 86400002000 ?m 4], executed := 3, yields := 2 \<rparr>))"
      using busy
      by (simp add: sample_world_def empty_store_def upsert_sql_def numeral_2_eq_2)
    from busy_is_retried_other_errors_propagate [of ?v _ _ "''1''" "''2''" "''3''"]
    have "busy_retry_contract ?v (db_delete ?v ''1'' ''2'' ''3'')
       (\<lambda>now s. s \<lparr> reacted_messages :=
                      filter (\<lambda>r. \<not> same_key ''1'' ''2'' ''3'' r) (reacted_messages s) \<rparr>)"
      by blast
    then have "busy_run ?v (executed empty_store) 1 \<longrightarrow>
           (case fault ?v (executed empty_store + 1) of
              None \<Rightarrow>
                db_delete ?v ''1'' ''2'' ''3'' empty_store
                = Some (Inr ((\<lambda>now s. s \<lparr> reacted_messages :=
                      filter (\<lambda>r. \<not> same_key ''1'' ''2'' ''3'' r) (reacted_messages s) \<rparr>)
                              (clock ?v (executed empty_store + 1))
                              (empty_store \<lparr> yields := yields empty_store + 1,
                                             executed := Suc (executed empty_store + 1) \<rparr>)))
            | Some e \<Rightarrow> is_busy e \<or> db_delete ?v ''1'' ''2'' ''3'' empty_store = Some (Inl e))"
      unfolding busy_retry_contract_def by blast
    then have second: "db_delete ?v ''1'' ''2'' ''3'' empty_store = Some (Inl (SqliteError ''disk I/O error''))"
      using busy other
      by (simp add: sample_world_def empty_store_def)
    from first second show ?thesis by simp
  qed
  have generator: "deleteOutdated (sample_world (\<lambda>k. if k = 1 then Some busy_error else None)) ''1'' 7
     (empty_store \<lparr> reacted_messages :=
        [sample_row ''1'' ''2'' ''eight'' 1 85708800000, sample_row ''2'' ''2'' ''other'' 1 85708800000] \<rparr>)
   = Some (Inr ([Count 1, Count 1, Deleted],
        empty_store \<lparr> reacted_messages := [sample_row ''2'' ''2'' ''other'' 1 85708800000],
                      executed := 4, yields := 1 \<rparr>))"
  proof -
    let ?w = "sample_world (\<lambda>k. if k = 1 then Some busy_error else None) :: string world"
    let ?rows = "[sample_row ''1'' ''2'' ''eight'' 1 85708800000, sample_row ''2'' ''2'' ''other'' 1 85708800000]"
    let ?s = "empty_store \<lparr> reacted_messages := ?rows \<rparr>"
    let ?t = "?s \<lparr> executed := Suc (Suc (executed ?s)), yields := Suc (yields ?s) \<rparr>"
    have busy: "is_busy busy_error"
      by (simp add: is_busy_def busy_error_def)
    from busy_is_retried_other_errors_propagate [of ?w _ _ "''1''" _ _ 7]
    have c: "generator_retry_contract ?w ''1'' 7"
      by blast
    from c have retry: "fault ?w (executed ?s) = None
          \<and> filter (\<lambda>r. guild_id r = ''1'' \<and> 7 * 86400000 < clock ?w (executed ?s) - timestamp r)
               (reacted_messages ?s) \<noteq> []
          \<and> fault ?w (Suc (executed ?s)) = Some busy_error \<and> is_busy busy_error \<longrightarrow>
        deleteOutdated ?w ''1'' 7 ?s =
          Option.bind (deleteOutdated ?w ''1'' 7 ?t)
            (\<lambda>r. case r of
                    Inl e' \<Rightarrow> Some (Inl e')
                  | Inr (ys, s') \<Rightarrow>
                      Some (Inr (Count (length (filter
                                   (\<lambda>r. guild_id r = ''1''
                                        \<and> 7 * 86400000 < clock ?w (executed ?s) - timestamp r)
                                   (reacted_messages ?s))) # ys, s')))"
      unfolding generator_retry_contract_def by blast
    from c have clean: "fault ?w (executed ?t) = None
          \<and> (filter (\<lambda>r. guild_id r = ''1'' \<and> 7 * 86400000 < clock ?w (executed ?t) - timestamp r)
                (reacted_messages ?t) = []
             \<or> fault ?w (Suc (executed ?t)) = None) \<longrightarrow>
        deleteOutdated ?w ''1'' 7 ?t = Some (Inr (clean_attempt ?w ''1'' 7 ?t))"
      unfolding generator_retry_contract_def by blast
    have pre_clean: "fault ?w (executed ?t) = None
          \<and> (filter (\<lambda>r. guild_id r = ''1'' \<and> 7 * 86400000 < clock ?w (executed ?t) - timestamp r)
                (reacted_messages ?t) = []
             \<or> fault ?w (Suc (executed ?t)) = None)"
      by (simp add: sample_world_def empty_store_def)
    with clean have second: "deleteOutdated ?w ''1'' 7 ?t = Some (Inr (clean_attempt ?w ''1'' 7 ?t))"
      by blast
    have attempt: "clean_attempt ?w ''1'' 7 ?t
        = ([Count 1, Deleted],
             empty_store \<lparr> reacted_messages := [sample_row ''2'' ''2'' ''other'' 1 85708800000],
                           executed := 4, yields := 1 \<rparr>)"
      by (simp add: clean_attempt_def sample_world_def empty_store_def sample_row_def)
    have pre_retry: "fault ?w (executed ?s) = None
          \<and> filter (\<lambda>r. guild_id r = ''1'' \<and> 7 * 86400000 < clock ?w (executed ?s) - timestamp r)
               (reacted_messages ?s) \<noteq> []
          \<and> fault ?w (Suc (executed ?s)) = Some busy_error \<and> is_busy busy_error"
      using busy by (simp add: sample_world_def empty_store_def sample_row_def)
    with retry have first: "deleteOutdated ?w ''1'' 7 ?s =
          Option.bind (deleteOutdated ?w ''1'' 7 ?t)
            (\<lambda>r. case r of
                    Inl e' \<Rightarrow> Some (Inl e')
                  | Inr (ys, s') \<Rightarrow>
                      Some (Inr (Count (length (filter
                                   (\<lambda>r. guild_id r = ''1''
                                        \<and> 7 * 86400000 < clock ?w (executed ?s) - timestamp r)
                                   (reacted_messages ?s))) # ys, s')))"
      by blast
    have count: "length (filter (\<lambda>r. guild_id r = ''1''
                                        \<and> 7 * 86400000 < clock ?w (executed ?s) - timestamp r)
                                   (reacted_messages ?s)) = 1"
      by (simp add: sample_world_def empty_store_def sample_row_def)
    show ?thesis
      unfolding first second attempt count by simp
  qed
  from sets generator show ?thesis by simp
qed




text \<open>
  Claim C9. A tick whose time matches while the configured guild and channel names do not
  resolve to a guild-text channel leaves the database and what was sent as they are,
  and still schedules the next check 596160000 milliseconds later. So a tick that
  changes the database or sends anything has matched the time and resolved the channel.
\<close>

theorem tick_unresolved_channel_skips_the_week:
  "(time_matches now weekday hour minute \<and> \<not> resolves_to_text w guildName channelName \<longrightarrow>
      (\<exists>b'. tick w now guildId guildName channelName weekday hour minute b = Some (Inr b')
            \<and> db b' = db b \<and> sent b' = sent b
            \<and> instances b' guildId = Some (next_handle b)
            \<and> timers b' (next_handle b) =
                Some \<lparr> t_delay = 596160000, t_guildId = guildId, t_guildName = guildName,
                       t_channelName = channelName, t_weekday = weekday, t_hour = hour,
                       t_minute = minute \<rparr>))
   \<and> (tick w now guildId guildName channelName weekday hour minute b = Some (Inr b')
        \<and> (db b' \<noteq> db b \<or> sent b' \<noteq> sent b) \<longrightarrow>
      time_matches now weekday hour minute \<and> resolves_to_text w guildName channelName)"
proof (intro conjI impI)
  assume "time_matches now weekday hour minute \<and> \<not> resolves_to_text w guildName channelName"
  then have "tick w now guildId guildName channelName weekday hour minute b
     = Some (Inr (schedule 596160000 guildId guildName channelName weekday hour minute b))"
    by (simp add: tick_unresolved)
  then show "\<exists>b'. tick w now guildId guildName channelName weekday hour minute b = Some (Inr b')
            \<and> db b' = db b \<and> sent b' = sent b
            \<and> instances b' guildId = Some (next_handle b)
            \<and> timers b' (next_handle b) =
                Some \<lparr> t_delay = 596160000, t_guildId = guildId, t_guildName = guildName,
                       t_channelName = channelName, t_weekday = weekday, t_hour = hour,
                       t_minute = minute \<rparr>"
    by (simp add: schedule_fields)
next
  assume a: "tick w now guildId guildName channelName weekday hour minute b = Some (Inr b')
        \<and> (db b' \<noteq> db b \<or> sent b' \<noteq> sent b)"
  show "time_matches now weekday hour minute"
  proof (rule ccontr)
    assume "\<not> time_matches now weekday hour minute"
    with a show False by (auto simp: tick_no_match schedule_fields)
  qed
  then show "resolves_to_text w guildName channelName"
    using a tick_unresolved [of now weekday hour minute w guildName channelName guildId b]
    by (cases "resolves_to_text w guildName channelName") (auto simp: schedule_fields)
qed

theorem tick_renamed_channel_posts_nothing:
  "\<exists>b'. tick (sample_world (\<lambda>k. None)) \<lparr> now_day = 1, now_hour = 9, now_minute = 0 \<rparr>
           ''1'' ''inugoya'' ''renamed'' 1 9 0
           (sample_bot (empty_store \<lparr> reacted_messages := [sample_row ''1'' ''2'' ''3'' 4 0] \<rparr>))
         = Some (Inr b')
       \<and> db b' = empty_store \<lparr> reacted_messages := [sample_row ''1'' ''2'' ''3'' 4 0] \<rparr>
       \<and> sent b' = []
       \<and> instances b' ''1'' = Some 0
       \<and> timers b' 0 =
           Some \<lparr> t_delay = 596160000, t_guildId = ''1'', t_guildName = ''inugoya'',
                  t_channelName = ''renamed'', t_weekday = 1, t_hour = 9, t_minute = 0 \<rparr>"
proof -
  let ?w = "sample_world (\<lambda>k. None)"
  let ?now = "\<lparr> now_day = 1, now_hour = 9, now_minute = 0 \<rparr>"
  let ?b = "sample_bot (empty_store \<lparr> reacted_messages := [sample_row ''1'' ''2'' ''3'' 4 0] \<rparr>)"
  have "time_matches ?now 1 9 0 \<and> \<not> resolves_to_text ?w ''inugoya'' ''renamed''"
    by (simp add: time_matches_def resolves_to_text_def find_channel_def sample_world_def)
  with tick_unresolved_channel_skips_the_week [of ?now 1 9 0 ?w "''inugoya''" "''renamed''" "''1''" ?b]
  show ?thesis
    by (simp add: sample_bot_def)
qed

text \<open>
  Claim C10. Without a config record of the message's guild the handler of an added
  reaction leaves everything as it is. With one, for a message of a guild that no bot
  wrote, it stores the row of the message with the total of its reaction counts. The
  handler of a removed reaction never looks at the config: for such a message it
  stores the row with the total when the total is positive, creating the row when the
  key is new, and it removes the rows with the message's key otherwise. The statement is
  taken to run without an error.
\<close>

theorem reaction_add_needs_registration_remove_does_not:
  "(config_get (m_guildId msg) (db b) = None \<longrightarrow> on_MessageReactionAdd w msg b = Some (Inr b))
   \<and> (config_get (m_guildId msg) (db b) \<noteq> None \<and> \<not> m_author_bot msg \<and> m_inGuild msg
        \<and> fault w (executed (db b)) = None \<longrightarrow>
      (\<exists>b'. on_MessageReactionAdd w msg b = Some (Inr b')
           \<and> row_holds_total (clock w (executed (db b))) msg
                (reacted_messages (db b)) (reacted_messages (db b'))))
   \<and> (\<not> m_author_bot msg \<and> m_inGuild msg \<and> fault w (executed (db b)) = None
        \<and> 0 < sum_list (m_reactions msg) \<longrightarrow>
      (\<exists>b'. on_MessageReactionRemove w msg b = Some (Inr b')
           \<and> row_holds_total (clock w (executed (db b))) msg
                (reacted_messages (db b)) (reacted_messages (db b'))))
   \<and> (\<not> m_author_bot msg \<and> m_inGuild msg \<and> fault w (executed (db b)) = None
        \<and> sum_list (m_reactions msg) \<le> 0 \<longrightarrow>
      (\<exists>b'. on_MessageReactionRemove w msg b = Some (Inr b')
           \<and> reacted_messages (db b')
             = filter (\<lambda>r. \<not> (guild_id r = m_guildId msg \<and> channel_id r = m_channelId msg
                                 \<and> message_id r = m_id msg))
                 (reacted_messages (db b))))"
proof (intro conjI impI)
  assume "config_get (m_guildId msg) (db b) = None"
  then show "on_MessageReactionAdd w msg b = Some (Inr b)"
    by (simp add: on_MessageReactionAdd_def)
next
  assume a: "config_get (m_guildId msg) (db b) \<noteq> None \<and> \<not> m_author_bot msg \<and> m_inGuild msg
        \<and> fault w (executed (db b)) = None"
  then have "on_MessageReactionAdd w msg b
     = Some (Inr (b \<lparr> db := (db b)
           \<lparr> reacted_messages := upsert_sql (clock w (executed (db b))) msg (sum_list (m_reactions msg))
                                   (reacted_messages (db b)),
             executed := Suc (executed (db b)) \<rparr> \<rparr>))"
    by (auto simp: on_MessageReactionAdd_def with_db_def db_set_clean total_reactions_sum)
  then show "\<exists>b'. on_MessageReactionAdd w msg b = Some (Inr b')
           \<and> row_holds_total (clock w (executed (db b))) msg
                (reacted_messages (db b)) (reacted_messages (db b'))"
    by (simp add: upsert_sql_holds_total)
next
  assume a: "\<not> m_author_bot msg \<and> m_inGuild msg \<and> fault w (executed (db b)) = None
        \<and> 0 < sum_list (m_reactions msg)"
  then have "on_MessageReactionRemove w msg b
     = Some (Inr (b \<lparr> db := (db b)
           \<lparr> reacted_messages := upsert_sql (clock w (executed (db b))) msg (sum_list (m_reactions msg))
                                   (reacted_messages (db b)),
             executed := Suc (executed (db b)) \<rparr> \<rparr>))"
    by (simp add: on_MessageReactionRemove_def with_db_def db_set_clean total_reactions_sum)
  then show "\<exists>b'. on_MessageReactionRemove w msg b = Some (Inr b')
           \<and> row_holds_total (clock w (executed (db b))) msg
                (reacted_messages (db b)) (reacted_messages (db b'))"
    by (simp add: upsert_sql_holds_total)
next
  assume a: "\<not> m_author_bot msg \<and> m_inGuild msg \<and> fault w (executed (db b)) = None
        \<and> sum_list (m_reactions msg) \<le> 0"
  then have "on_MessageReactionRemove w msg b
     = Some (Inr (b \<lparr> db := (db b)
           \<lparr> reacted_messages :=
               filter (\<lambda>r. \<not> same_key (m_guildId msg) (m_channelId msg) (m_id msg) r)
                 (reacted_messages (db b)),
             executed := Suc (executed (db b)) \<rparr> \<rparr>))"
    by (simp add: on_MessageReactionRemove_def with_db_def db_delete_clean total_reactions_sum)
  then show "\<exists>b'. on_MessageReactionRemove w msg b = Some (Inr b')
           \<and> reacted_messages (db b')
             = filter (\<lambda>r. \<not> (guild_id r = m_guildId msg \<and> channel_id r = m_channelId msg
                                 \<and> message_id r = m_id msg))
                 (reacted_messages (db b))"
    by (simp add: same_key_eq)
qed

theorem reaction_remove_creates_row_for_unregistered_guild:
  "on_MessageReactionAdd (sample_world (\<lambda>k. None))
       ((sample_message ''7'' ''2'' ''3'' 5000) \<lparr> m_reactions := [2, 1] \<rparr>) (sample_bot empty_store)
     = Some (Inr (sample_bot empty_store))
   \<and> (\<exists>b'. on_MessageReactionRemove (sample_world (\<lambda>k. None))
              ((sample_message ''7'' ''2'' ''3'' 5000) \<lparr> m_reactions := [2, 1] \<rparr>) (sample_bot empty_store)
            = Some (Inr b')
          \<and> reacted_messages (db b')
            = [\<lparr> guild_id = ''7'', channel_id = ''2'', message_id = ''3'',
                 guild_name = ''inugoya'', channel_name = ''general'', content = ''hello'',
                 author = ''alice'', url = ''https://discord.com/channels/1/2/3'',
                 reactions_count = 3, timestamp = 5000,
                 created_at = 86400000000, updated_at = 86400000000 \<rparr>])
   \<and> (\<exists>b'. on_MessageReactionRemove (sample_world (\<lambda>k. None))
              (sample_message ''7'' ''2'' ''3'' 5000)
              (sample_bot (empty_store \<lparr> reacted_messages :=
                 [sample_row ''7'' ''2'' ''3'' 1 5000, sample_row ''7'' ''2'' ''4'' 6 5000] \<rparr>))
            = Some (Inr b')
          \<and> reacted_messages (db b') = [sample_row ''7'' ''2'' ''4'' 6 5000])"
proof -
  let ?w = "sample_world (\<lambda>k. None) :: string world"
  let ?m = "(sample_message ''7'' ''2'' ''3'' 5000) \<lparr> m_reactions := [2, 1] \<rparr>"
  let ?n = "sample_message ''7'' ''2'' ''3'' 5000"
  let ?b = "sample_bot empty_store"
  let ?c = "sample_bot (empty_store \<lparr> reacted_messages :=
                 [sample_row ''7'' ''2'' ''3'' 1 5000, sample_row ''7'' ''2'' ''4'' 6 5000] \<rparr>)"
  have unreg: "config_get (m_guildId ?m) (db ?b) = None"
    by (simp add: config_get_def sample_bot_def empty_store_def)
  have ok: "\<not> m_author_bot ?m \<and> m_inGuild ?m \<and> fault ?w (executed (db ?b)) = None
            \<and> 0 < sum_list (m_reactions ?m)"
    by (simp add: sample_message_def sample_world_def)
  have ok': "\<not> m_author_bot ?n \<and> m_inGuild ?n \<and> fault ?w (executed (db ?c)) = None
            \<and> sum_list (m_reactions ?n) \<le> 0"
    by (simp add: sample_message_def sample_world_def)
  from reaction_add_needs_registration_remove_does_not [of ?m ?b ?w] unreg
  have add: "on_MessageReactionAdd ?w ?m ?b = Some (Inr ?b)"
    by blast
  from reaction_add_needs_registration_remove_does_not [of ?m ?b ?w] ok
  obtain b' where rem: "on_MessageReactionRemove ?w ?m ?b = Some (Inr b')"
    "row_holds_total (clock ?w (executed (db ?b))) ?m (reacted_messages (db ?b)) (reacted_messages (db b'))"
    by blast
  from reaction_add_needs_registration_remove_does_not [of ?n ?c ?w] ok'
  obtain c' where del: "on_MessageReactionRemove ?w ?n ?c = Some (Inr c')"
    "reacted_messages (db c')
       = filter (\<lambda>r. \<not> (guild_id r = m_guildId ?n \<and> channel_id r = m_channelId ?n
                           \<and> message_id r = m_id ?n))
           (reacted_messages (db ?c))"
    by blast
  have "reacted_messages (db b')
            = [\<lparr> guild_id = ''7'', channel_id = ''2'', message_id = ''3'',
                 guild_name = ''inugoya'', channel_name = ''general'', content = ''hello'',
                 author = ''alice'', url = ''https://discord.com/channels/1/2/3'',
                 reactions_count = 3, timestamp = 5000,
                 created_at = 86400000000, updated_at = 86400000000 \<rparr>]"
    using rem(2)
    by (simp add: row_holds_total_def sample_message_def sample_bot_def
          empty_store_def sample_world_def)
  moreover have "reacted_messages (db c') = [sample_row ''7'' ''2'' ''4'' 6 5000]"
    using del(2)
    by (simp add: sample_message_def sample_bot_def empty_store_def sample_row_def)
  ultimately show ?thesis
    using add rem(1) del(1) by blast
qed

end
